theory Spec2Isabelle
  imports Complex_Main
begin

section \<open>Data model: the tables of the tool inventory\<close>

text \<open>
  The application keeps its state in four database tables, \<open>tools\<close>,
  \<open>tool_assignments\<close>, \<open>tool_event_log\<close> and \<open>tool_requests\<close>. A table is a list of
  rows in insertion order. Identifiers and timestamps are the strings the code handles
  (\<open>uuid\<close> columns, \<open>new Date().toISOString()\<close>). The text columns that the schema or the
  TypeScript types restrict to a fixed set of literals are datatypes. Columns that no
  modelled operation reads or writes (descriptions, prices, \<open>created_at\<close>) are left out.
\<close>

type_synonym uuid = string
type_synonym timestamp = string

datatype tool_status = Available | In_use | Maintenance | Retired | Damaged | Lost

datatype return_status = Active | Pending_return | Returned

datatype condition = Cond_good | Cond_maintenance | Cond_damaged | Cond_lost

datatype event_type = Ev_assigned | Ev_returned | Ev_moved | Ev_status_changed | Ev_created | Ev_updated

datatype request_status = Pending | Approved | Rejected | Fulfilled

datatype assignment_type = Person | Location | User

record tool =
  t_id :: uuid
  t_name :: string
  t_status :: tool_status
  t_location_id :: "uuid option"
  t_person_id :: "uuid option"

record assignment =
  a_id :: uuid
  a_tool_id :: uuid
  a_person_id :: "uuid option"
  a_location_id :: "uuid option"
  a_assigned_to :: "uuid option"
  a_assigned_at :: timestamp
  a_returned_at :: "timestamp option"
  a_notes :: "string option"
  a_return_condition :: "condition option"
  a_return_notes :: "string option"
  a_return_location_id :: "uuid option"
  a_return_status :: return_status
  a_return_requested_at :: "timestamp option"
  a_return_approved_by :: "uuid option"
  a_return_approved_at :: "timestamp option"

record event =
  e_tool_id :: uuid
  e_event_type :: event_type
  e_from_location_id :: "uuid option"
  e_to_location_id :: "uuid option"
  e_from_person_id :: "uuid option"
  e_to_person_id :: "uuid option"
  e_old_status :: "tool_status option"
  e_new_status :: "tool_status option"
  e_notes :: "string option"
  e_user_id :: "uuid option"

record tool_request =
  r_id :: uuid
  r_tool_id :: "uuid option"
  r_destination_location_id :: "uuid option"
  r_status :: request_status

record db =
  tools :: "tool list"
  tool_assignments :: "assignment list"
  tool_event_log :: "event list"
  tool_requests :: "tool_request list"

text \<open>
  The state of the \<open>AssignmentForm\<close> component when it is submitted. All fields are
  strings; an unselected drop-down is the empty string.
\<close>

record formData =
  f_tool_id :: string
  f_assignment_type :: assignment_type
  f_person_id :: string
  f_location_id :: string
  f_user_id :: string
  f_notes :: string

text \<open>
  Every call of the persistence client answers with an optional error. The answers are
  inputs of the model: \<open>True\<close> means that the call came back with an error and wrote
  nothing. The field names are the names of the \<open>error\<close> variables in the source.
\<close>

record faults =
  assignmentError :: bool
  toolError :: bool
  logError :: bool

definition no_faults :: faults where
  "no_faults = \<lparr>assignmentError = False, toolError = False, logError = False\<rparr>"

text \<open>
  What the caller of a handler observes: the handler ran to its end, it showed an alert
  (the \<open>catch\<close> branch), or it returned early without doing anything.
\<close>

datatype outcome = Completed | Alerted string | Returned_early

section \<open>Helpers of the embedding\<close>

text \<open>JavaScript's \<open>s || null\<close> on a string: the empty string is falsy.\<close>

definition or_null :: "string \<Rightarrow> string option" where
  "or_null s = (if s = [] then None else Some s)"

text \<open>\<open>x?.f || null\<close> on a column that is a string or null.\<close>

definition opt_or_null :: "string option \<Rightarrow> string option" where
  "opt_or_null x = (case x of None \<Rightarrow> None | Some s \<Rightarrow> or_null s)"

text \<open>\<open>update(...).eq('id', i)\<close> on the two tables that are updated by id.\<close>

definition update_tools :: "uuid \<Rightarrow> (tool \<Rightarrow> tool) \<Rightarrow> db \<Rightarrow> db" where
  "update_tools i f s =
     s\<lparr>tools := map (\<lambda>t. if t_id t = i then f t else t) (tools s)\<rparr>"

definition update_assignments :: "uuid \<Rightarrow> (assignment \<Rightarrow> assignment) \<Rightarrow> db \<Rightarrow> db" where
  "update_assignments i f s =
     s\<lparr>tool_assignments := map (\<lambda>a. if a_id a = i then f a else a) (tool_assignments s)\<rparr>"

definition update_requests :: "uuid \<Rightarrow> (tool_request \<Rightarrow> tool_request) \<Rightarrow> db \<Rightarrow> db" where
  "update_requests i f s =
     s\<lparr>tool_requests := map (\<lambda>r. if r_id r = i then f r else r) (tool_requests s)\<rparr>"

text \<open>\<open>select(...).eq('id', i).maybeSingle()\<close> on \<open>tools\<close>.\<close>

definition select_tool :: "uuid \<Rightarrow> db \<Rightarrow> tool option" where
  "select_tool i s = find (\<lambda>t. t_id t = i) (tools s)"

text \<open>
  The status a returned tool gets, as both return paths compute it:
  \<open>let newStatus = 'available'\<close>, overwritten for the three other conditions.
\<close>

fun newStatus :: "condition option \<Rightarrow> tool_status" where
  "newStatus (Some Cond_maintenance) = Maintenance"
| "newStatus (Some Cond_damaged) = Damaged"
| "newStatus (Some Cond_lost) = Lost"
| "newStatus _ = Available"

fun condition_text :: "condition \<Rightarrow> string" where
  "condition_text Cond_good = ''good''"
| "condition_text Cond_maintenance = ''maintenance''"
| "condition_text Cond_damaged = ''damaged''"
| "condition_text Cond_lost = ''lost''"

section \<open>The operations\<close>

subsection \<open>\<open>AssignmentForm.handleSubmit\<close>: creating an assignment\<close>

text \<open>
  \<open>user\<close> is the signed-in user (or none), \<open>new_id\<close> and \<open>now\<close> are the values the
  database generates for the columns \<open>id\<close> and \<open>assigned_at\<close>. The columns that the
  insert does not mention get the defaults of the schema: \<open>returned_at\<close> is null and
  \<open>return_condition\<close> is \<open>'good'\<close>. The handler reads the tool, inserts the
  assignment, sets the tool's status and then appends the event; the answer of the last
  insert is not looked at.
\<close>

definition assignmentData :: "formData \<Rightarrow> uuid \<Rightarrow> timestamp \<Rightarrow> assignment" where
  "assignmentData fd new_id now =
     \<lparr>a_id = new_id,
      a_tool_id = f_tool_id fd,
      a_person_id = (if f_assignment_type fd = Person then Some (f_person_id fd) else None),
      a_location_id =
        (if f_assignment_type fd = Location then Some (f_location_id fd)
         else if f_assignment_type fd = User then Some (f_location_id fd) else None),
      a_assigned_to = (if f_assignment_type fd = User then Some (f_user_id fd) else None),
      a_assigned_at = now,
      a_returned_at = None,
      a_notes = or_null (f_notes fd),
      a_return_condition = Some Cond_good,
      a_return_notes = None,
      a_return_location_id = None,
      a_return_status = Active,
      a_return_requested_at = None,
      a_return_approved_by = None,
      a_return_approved_at = None\<rparr>"

definition assigned_event :: "formData \<Rightarrow> uuid option \<Rightarrow> tool option \<Rightarrow> assignment \<Rightarrow> event" where
  "assigned_event fd user tool ad =
     \<lparr>e_tool_id = f_tool_id fd,
      e_event_type = Ev_assigned,
      e_from_location_id = (case tool of None \<Rightarrow> None | Some t \<Rightarrow> opt_or_null (t_location_id t)),
      e_to_location_id = a_location_id ad,
      e_from_person_id = None,
      e_to_person_id = a_person_id ad,
      e_old_status = map_option t_status tool,
      e_new_status = Some In_use,
      e_notes = Some (if f_notes fd = [] then ''Tool assigned'' else f_notes fd),
      e_user_id = (case user of None \<Rightarrow> None | Some u \<Rightarrow> or_null u)\<rparr>"

text \<open>
  The tools that the form offers: \<open>loadData\<close> runs once, when the form is opened, and
  keeps the tools whose status is \<open>available\<close> at that moment. (The query also orders
  them by name; only membership in the list is used below.)
\<close>

definition AssignmentForm_loadData :: "db \<Rightarrow> tool list" where
  "AssignmentForm_loadData s = filter (\<lambda>t. t_status t = Available) (tools s)"

definition AssignmentForm_handleSubmit ::
  "formData \<Rightarrow> uuid option \<Rightarrow> uuid \<Rightarrow> timestamp \<Rightarrow> faults \<Rightarrow> db \<Rightarrow> outcome \<times> db" where
  "AssignmentForm_handleSubmit fd user new_id now flt s =
     (let tool = select_tool (f_tool_id fd) s;
          ad = assignmentData fd new_id now
      in if assignmentError flt then (Alerted ''Error creating assignment'', s)
         else
           let s1 = s\<lparr>tool_assignments := tool_assignments s @ [ad]\<rparr>
           in if toolError flt then (Alerted ''Error creating assignment'', s1)
              else
                let s2 = update_tools (f_tool_id fd) (\<lambda>t. t\<lparr>t_status := In_use\<rparr>) s1;
                    s3 = (if logError flt then s2
                          else s2\<lparr>tool_event_log :=
                                    tool_event_log s2 @ [assigned_event fd user tool ad]\<rparr>)
                in (Completed, s3))"

subsection \<open>\<open>ReturnDialog.handleReturn\<close>: returning, or asking to return\<close>

text \<open>
  The dialog holds the chosen condition, the selected return location (the empty string
  when none is selected) and the notes. An administrator performs the return at once; any
  other user files a pending return. The event of the administrator's path records the
  selected location as it stands in the dialog.
\<close>

definition returned_event ::
  "assignment \<Rightarrow> condition \<Rightarrow> string \<Rightarrow> string \<Rightarrow> uuid \<Rightarrow> tool option \<Rightarrow> event" where
  "returned_event a c returnLocationId returnNotes u tool =
     \<lparr>e_tool_id = a_tool_id a,
      e_event_type = Ev_returned,
      e_from_location_id = a_location_id a,
      e_to_location_id = Some returnLocationId,
      e_from_person_id = None,
      e_to_person_id = None,
      e_old_status = map_option t_status tool,
      e_new_status = Some (newStatus (Some c)),
      e_notes = Some (''Returned with condition: '' @ condition_text c @
                      (if returnNotes = [] then [] else ''. '' @ returnNotes)),
      e_user_id = Some u\<rparr>"

definition ReturnDialog_handleReturn ::
  "assignment \<Rightarrow> bool \<Rightarrow> condition \<Rightarrow> string \<Rightarrow> string \<Rightarrow> uuid option \<Rightarrow> timestamp \<Rightarrow>
   timestamp \<Rightarrow> faults \<Rightarrow> db \<Rightarrow> outcome \<times> db" where
  "ReturnDialog_handleReturn a isAdmin c returnLocationId returnNotes user now now2 flt s =
     (if isAdmin then
        (case user of
           None \<Rightarrow> (Returned_early, s)
         | Some u \<Rightarrow>
             let tool = select_tool (a_tool_id a) s
             in if assignmentError flt then (Alerted ''Error returning tool'', s)
                else
                  let s1 = update_assignments (a_id a)
                             (\<lambda>r. r\<lparr>a_returned_at := Some now,
                                     a_return_location_id :=
                                       (if c = Cond_lost then None else or_null returnLocationId),
                                     a_return_condition := Some c,
                                     a_return_notes := or_null returnNotes,
                                     a_return_status := Returned,
                                     a_return_approved_by := Some u,
                                     a_return_approved_at := Some now2\<rparr>) s
                  in if toolError flt then (Alerted ''Error returning tool'', s1)
                     else
                       let s2 = update_tools (a_tool_id a)
                                  (\<lambda>t. t\<lparr>t_status := newStatus (Some c)\<rparr>) s1;
                           s3 = (if logError flt then s2
                                 else s2\<lparr>tool_event_log := tool_event_log s2 @
                                           [returned_event a c returnLocationId returnNotes u tool]\<rparr>)
                       in (Completed, s3))
      else
        (if assignmentError flt then (Alerted ''Error returning tool'', s)
         else
           (Completed,
            update_assignments (a_id a)
              (\<lambda>r. r\<lparr>a_return_status := Pending_return,
                      a_return_requested_at := Some now,
                      a_return_location_id :=
                        (if c = Cond_lost then None else or_null returnLocationId),
                      a_return_condition := Some c,
                      a_return_notes := or_null returnNotes\<rparr>) s)))"

subsection \<open>\<open>approveReturn\<close> and \<open>rejectReturn\<close>\<close>

text \<open>
  Both take the assignment as the list of pending returns shows it and address the row
  by its id. \<open>approveReturn\<close> writes the assignment and then the tool's status; it
  writes nothing else. The clock is read twice for one update: \<open>now\<close> is the
  reading stored as \<open>returned_at\<close> and \<open>now2\<close> the one stored as
  \<open>return_approved_at\<close>, here and in the administrator's path of the return dialog.
\<close>

definition approveReturn ::
  "assignment \<Rightarrow> uuid option \<Rightarrow> timestamp \<Rightarrow> timestamp \<Rightarrow> faults \<Rightarrow> db \<Rightarrow> outcome \<times> db" where
  "approveReturn a user now now2 flt s =
     (case user of
        None \<Rightarrow> (Returned_early, s)
      | Some u \<Rightarrow>
          if assignmentError flt then (Alerted ''Error approving return'', s)
          else
            let s1 = update_assignments (a_id a)
                       (\<lambda>r. r\<lparr>a_returned_at := Some now,
                               a_return_status := Returned,
                               a_return_approved_by := Some u,
                               a_return_approved_at := Some now2\<rparr>) s
            in if toolError flt then (Alerted ''Error approving return'', s1)
               else (Completed,
                     update_tools (a_tool_id a)
                       (\<lambda>t. t\<lparr>t_status := newStatus (a_return_condition a)\<rparr>) s1))"

definition rejectReturn :: "assignment \<Rightarrow> faults \<Rightarrow> db \<Rightarrow> outcome \<times> db" where
  "rejectReturn a flt s =
     (if assignmentError flt then (Alerted ''Error rejecting return'', s)
      else
        (Completed,
         update_assignments (a_id a)
           (\<lambda>r. r\<lparr>a_return_status := Active,
                   a_return_requested_at := None,
                   a_return_location_id := None,
                   a_return_condition := None,
                   a_return_notes := None\<rparr>) s))"

subsection \<open>\<open>Dashboard.handleReturnTool\<close>: "return my tool"\<close>

text \<open>\<open>confirmed\<close> is the answer to the confirmation prompt.\<close>

definition handleReturnTool :: "uuid \<Rightarrow> bool \<Rightarrow> faults \<Rightarrow> db \<Rightarrow> outcome \<times> db" where
  "handleReturnTool toolId confirmed flt s =
     (if \<not> confirmed then (Returned_early, s)
      else if toolError flt then (Alerted ''Failed to return tool'', s)
      else (Completed,
            update_tools toolId (\<lambda>t. t\<lparr>t_person_id := None, t_status := Available\<rparr>) s))"

subsection \<open>\<open>ToolRequestsManager.updateRequestStatus\<close> and \<open>ToolsManager.assignToWarehouse\<close>\<close>

text \<open>
  \<open>updateRequestStatus\<close> looks the request up in \<open>requests\<close>, the list that the
  component loaded earlier, not in the table as it stands.
  \<open>request_move\<close> is the condition of its first \<open>if\<close>: the new status is
  \<open>fulfilled\<close> and the request names a tool and a destination; then the tool is moved
  there. After that the status of the request is written. The error of the write to
  \<open>tool_requests\<close> is the field \<open>assignmentError\<close> of the answers.
\<close>

definition request_move ::
  "tool_request list \<Rightarrow> uuid \<Rightarrow> request_status \<Rightarrow> (uuid \<times> uuid) option" where
  "request_move requests i status =
     (case find (\<lambda>r. r_id r = i) requests of
        None \<Rightarrow> None
      | Some r \<Rightarrow>
          (case (opt_or_null (r_tool_id r), opt_or_null (r_destination_location_id r)) of
             (Some tid, Some dest) \<Rightarrow> if status = Fulfilled then Some (tid, dest) else None
           | _ \<Rightarrow> None))"

definition updateRequestStatus ::
  "tool_request list \<Rightarrow> uuid \<Rightarrow> request_status \<Rightarrow> faults \<Rightarrow> db \<Rightarrow> outcome \<times> db" where
  "updateRequestStatus requests i status flt s =
     (case request_move requests i status of
        Some (tid, dest) \<Rightarrow>
          if toolError flt then (Alerted ''Error updating request'', s)
          else
            let s1 = update_tools tid (\<lambda>t. t\<lparr>t_location_id := Some dest\<rparr>) s
            in if assignmentError flt then (Alerted ''Error updating request'', s1)
               else (Completed, update_requests i (\<lambda>r. r\<lparr>r_status := status\<rparr>) s1)
      | None \<Rightarrow>
          if assignmentError flt then (Alerted ''Error updating request'', s)
          else (Completed, update_requests i (\<lambda>r. r\<lparr>r_status := status\<rparr>) s))"

definition assignToWarehouse :: "uuid \<Rightarrow> uuid \<Rightarrow> faults \<Rightarrow> db \<Rightarrow> outcome \<times> db" where
  "assignToWarehouse toolId warehouseId flt s =
     (if toolError flt then (Alerted ''Error assigning tool to warehouse'', s)
      else (Completed, update_tools toolId (\<lambda>t. t\<lparr>t_location_id := Some warehouseId\<rparr>) s))"

section \<open>Operations as actions; runs\<close>

text \<open>
  One constructor for each handler, carrying the handler's arguments, so that sequences
  of operations can be run.
\<close>

datatype action =
    Create_assignment formData "uuid option" uuid timestamp faults
  | Request_return assignment bool condition string string "uuid option" timestamp timestamp faults
  | Approve_return assignment "uuid option" timestamp timestamp faults
  | Reject_return assignment faults
  | Update_request "tool_request list" uuid request_status faults
  | Assign_to_warehouse uuid uuid faults

fun perform :: "action \<Rightarrow> db \<Rightarrow> outcome \<times> db" where
  "perform (Create_assignment fd user new_id now flt) s =
     AssignmentForm_handleSubmit fd user new_id now flt s"
| "perform (Request_return a isAdmin c loc notes user now now2 flt) s =
     ReturnDialog_handleReturn a isAdmin c loc notes user now now2 flt s"
| "perform (Approve_return a user now now2 flt) s = approveReturn a user now now2 flt s"
| "perform (Reject_return a flt) s = rejectReturn a flt s"
| "perform (Update_request requests i status flt) s =
     updateRequestStatus requests i status flt s"
| "perform (Assign_to_warehouse toolId warehouseId flt) s =
     assignToWarehouse toolId warehouseId flt s"

definition step :: "action \<Rightarrow> db \<Rightarrow> db" where
  "step act s = snd (perform act s)"

text \<open>
  An operation with two writes is cut short when the first write is accepted and the
  second is rejected.
\<close>

definition cut_short :: "faults \<Rightarrow> bool" where
  "cut_short flt = (\<not> assignmentError flt \<and> toolError flt)"

text \<open>
  Conditions on the state in which an operation is carried out. None of them is checked
  by a handler; the user interface establishes them only as long as the lists it shows
  are those of the current state.
  \<^item> The tool chosen in the assignment form is in the list that \<open>loadData\<close> would load in
    this very state, that is, its status is \<open>available\<close> now. A form that was opened
    earlier and is submitted after the tool has been assigned does not satisfy this,
    although \<open>handleSubmit\<close> accepts it.
  \<^item> The database gives the new row an unused id.
  \<^item> The row passed to the return dialog is a row of the table with return status
    \<open>active\<close>; the row passed to \<open>approveReturn\<close> or \<open>rejectReturn\<close> is a row of the
    table with return status \<open>pending_return\<close>.
  \<^item> The operation is not cut short.
\<close>

fun admissible :: "action \<Rightarrow> db \<Rightarrow> bool" where
  "admissible (Create_assignment fd user new_id now flt) s =
     (f_tool_id fd \<in> set (map t_id (AssignmentForm_loadData s)) \<and>
      new_id \<notin> set (map a_id (tool_assignments s)) \<and> \<not> cut_short flt)"
| "admissible (Request_return a isAdmin c loc notes user now now2 flt) s =
     (a \<in> set (tool_assignments s) \<and> a_return_status a = Active \<and>
      \<not> (isAdmin \<and> cut_short flt))"
| "admissible (Approve_return a user now now2 flt) s =
     (a \<in> set (tool_assignments s) \<and> a_return_status a = Pending_return \<and> \<not> cut_short flt)"
| "admissible (Reject_return a flt) s =
     (a \<in> set (tool_assignments s) \<and> a_return_status a = Pending_return)"
| "admissible (Update_request requests i status flt) s = True"
| "admissible (Assign_to_warehouse toolId warehouseId flt) s = True"

fun run :: "action list \<Rightarrow> db \<Rightarrow> db option" where
  "run [] s = Some s"
| "run (act # acts) s = (if admissible act s then run acts (step act s) else None)"

text \<open>
  The first write of an operation is rejected. \<open>updateRequestStatus\<close> writes the tool
  first when it moves one, and the request otherwise.
\<close>

fun first_write_rejected :: "action \<Rightarrow> db \<Rightarrow> bool" where
  "first_write_rejected (Create_assignment fd user new_id now flt) s = assignmentError flt"
| "first_write_rejected (Request_return a isAdmin c loc notes user now now2 flt) s = assignmentError flt"
| "first_write_rejected (Approve_return a user now now2 flt) s = assignmentError flt"
| "first_write_rejected (Reject_return a flt) s = assignmentError flt"
| "first_write_rejected (Update_request requests i status flt) s =
     (if request_move requests i status \<noteq> None then toolError flt else assignmentError flt)"
| "first_write_rejected (Assign_to_warehouse toolId warehouseId flt) s = toolError flt"

section \<open>The invariants of the ledger\<close>

text \<open>The assignments of a tool that are still open (\<open>returned_at\<close> is null).\<close>

definition open_assignments :: "uuid \<Rightarrow> db \<Rightarrow> assignment list" where
  "open_assignments tid s =
     filter (\<lambda>a. a_tool_id a = tid \<and> a_returned_at a = None) (tool_assignments s)"

text \<open>
  A tool is in custody when one of its assignments is open with return status
  \<open>active\<close> or \<open>pending_return\<close>.
\<close>

definition in_custody :: "uuid \<Rightarrow> db \<Rightarrow> bool" where
  "in_custody tid s =
     (\<exists>a \<in> set (tool_assignments s).
        a_tool_id a = tid \<and> a_returned_at a = None \<and>
        (a_return_status a = Active \<or> a_return_status a = Pending_return))"

definition status_matches_ledger :: "db \<Rightarrow> bool" where
  "status_matches_ledger s =
     (\<forall>t \<in> set (tools s). (t_status t = In_use) = in_custody (t_id t) s)"

definition one_open_per_tool :: "db \<Rightarrow> bool" where
  "one_open_per_tool s =
     (\<forall>a \<in> set (tool_assignments s). length (open_assignments (a_tool_id a) s) \<le> 1)"

text \<open>
  What the schema and the three return states guarantee of the rows: ids are a primary
  key, and a row is closed exactly when its return status is \<open>returned\<close>.
\<close>

definition rows_wellformed :: "db \<Rightarrow> bool" where
  "rows_wellformed s =
     (distinct (map a_id (tool_assignments s)) \<and>
      (\<forall>a \<in> set (tool_assignments s).
         (a_returned_at a = None) = (a_return_status a \<noteq> Returned)))"

definition consistent :: "db \<Rightarrow> bool" where
  "consistent s = (rows_wellformed s \<and> status_matches_ledger s \<and> one_open_per_tool s)"

text \<open>Reading one row by id, as \<open>maybeSingle\<close> does.\<close>

definition select_assignment :: "uuid \<Rightarrow> db \<Rightarrow> assignment option" where
  "select_assignment i s = find (\<lambda>a. a_id a = i) (tool_assignments s)"

section \<open>What a write leaves behind\<close>

text \<open>
  The write of an operation to the assignments (or, for \<open>updateRequestStatus\<close>, to
  the requests), as it can be read back from the state \<open>s'\<close> after the operation that
  started in \<open>s\<close>: the inserted row is the last row; the updated row carries the new
  values.
\<close>

fun assignment_write_visible :: "action \<Rightarrow> db \<Rightarrow> db \<Rightarrow> bool" where
  "assignment_write_visible (Create_assignment fd user new_id now flt) s s' =
     (tool_assignments s' = tool_assignments s @ [assignmentData fd new_id now])"
| "assignment_write_visible (Request_return a isAdmin c loc notes user now now2 flt) s s' =
     (map_option (\<lambda>r. (a_return_status r, a_return_condition r, a_return_notes r,
                        a_return_location_id r))
        (select_assignment (a_id a) s') =
      Some (if isAdmin then Returned else Pending_return, Some c, or_null notes,
            if c = Cond_lost then None else or_null loc))"
| "assignment_write_visible (Approve_return a user now now2 flt) s s' =
     (map_option (\<lambda>r. (a_return_status r, a_returned_at r, a_return_approved_by r,
                        a_return_approved_at r))
        (select_assignment (a_id a) s') =
      Some (Returned, Some now, user, Some now2))"
| "assignment_write_visible (Reject_return a flt) s s' =
     (map_option (\<lambda>r. (a_return_status r, a_return_requested_at r, a_return_location_id r,
                        a_return_condition r, a_return_notes r))
        (select_assignment (a_id a) s') =
      Some (Active, None, None, None, None))"
| "assignment_write_visible (Update_request requests i status flt) s s' =
     (map_option r_status (find (\<lambda>r. r_id r = i) (tool_requests s')) = Some status)"
| "assignment_write_visible (Assign_to_warehouse toolId warehouseId flt) s s' = True"

text \<open>
  The write of an operation to the tools, read back in the same way. An operation
  without such a write leaves the tools as they were.
\<close>

fun tool_write_visible :: "action \<Rightarrow> db \<Rightarrow> db \<Rightarrow> bool" where
  "tool_write_visible (Create_assignment fd user new_id now flt) s s' =
     (map t_status (tools s') =
      map (\<lambda>t. if t_id t = f_tool_id fd then In_use else t_status t) (tools s))"
| "tool_write_visible (Request_return a isAdmin c loc notes user now now2 flt) s s' =
     (if isAdmin
      then map t_status (tools s') =
           map (\<lambda>t. if t_id t = a_tool_id a then newStatus (Some c) else t_status t) (tools s)
      else tools s' = tools s)"
| "tool_write_visible (Approve_return a user now now2 flt) s s' =
     (map t_status (tools s') =
      map (\<lambda>t. if t_id t = a_tool_id a then newStatus (a_return_condition a) else t_status t)
        (tools s))"
| "tool_write_visible (Reject_return a flt) s s' = (tools s' = tools s)"
| "tool_write_visible (Update_request requests i status flt) s s' =
     (case request_move requests i status of
        Some (tid, dest) \<Rightarrow>
          map t_location_id (tools s') =
          map (\<lambda>t. if t_id t = tid then Some dest else t_location_id t) (tools s)
      | None \<Rightarrow> tools s' = tools s)"
| "tool_write_visible (Assign_to_warehouse toolId warehouseId flt) s s' =
     (map t_location_id (tools s') =
      map (\<lambda>t. if t_id t = toolId then Some warehouseId else t_location_id t) (tools s))"

text \<open>
  The event of the two operations that insert one: it is appended exactly when its
  insert was accepted.
\<close>

fun event_write_visible :: "action \<Rightarrow> db \<Rightarrow> db \<Rightarrow> bool" where
  "event_write_visible (Create_assignment fd user new_id now flt) s s' =
     (tool_event_log s' =
      tool_event_log s @
      (if logError flt then []
       else [assigned_event fd user (select_tool (f_tool_id fd) s) (assignmentData fd new_id now)]))"
| "event_write_visible (Request_return a isAdmin c loc notes user now now2 flt) s s' =
     (case user of
        Some u \<Rightarrow>
          isAdmin \<longrightarrow>
          tool_event_log s' =
          tool_event_log s @
          (if logError flt then []
           else [returned_event a c loc notes u (select_tool (a_tool_id a) s)])
      | None \<Rightarrow> True)"
| "event_write_visible act s s' = True"

text \<open>The row that the operation addresses by its id is stored.\<close>

fun targets_exist :: "action \<Rightarrow> db \<Rightarrow> bool" where
  "targets_exist (Request_return a isAdmin c loc notes user now now2 flt) s =
     (select_assignment (a_id a) s \<noteq> None)"
| "targets_exist (Approve_return a user now now2 flt) s = (select_assignment (a_id a) s \<noteq> None)"
| "targets_exist (Reject_return a flt) s = (select_assignment (a_id a) s \<noteq> None)"
| "targets_exist (Update_request requests i status flt) s =
     (find (\<lambda>r. r_id r = i) (tool_requests s) \<noteq> None)"
| "targets_exist act s = True"

text \<open>
  The operation reaches its second write, and that write is rejected after the first was
  accepted. \<open>updateRequestStatus\<close> is the one operation that writes the tool first.
\<close>

fun second_write_rejected :: "action \<Rightarrow> bool" where
  "second_write_rejected (Create_assignment fd user new_id now flt) = cut_short flt"
| "second_write_rejected (Request_return a isAdmin c loc notes user now now2 flt) =
     (isAdmin \<and> user \<noteq> None \<and> cut_short flt)"
| "second_write_rejected (Approve_return a user now now2 flt) = (user \<noteq> None \<and> cut_short flt)"
| "second_write_rejected (Reject_return a flt) = False"
| "second_write_rejected (Update_request requests i status flt) =
     (request_move requests i status \<noteq> None \<and> \<not> toolError flt \<and> assignmentError flt)"
| "second_write_rejected (Assign_to_warehouse toolId warehouseId flt) = False"

fun writes_tool_first :: "action \<Rightarrow> bool" where
  "writes_tool_first (Update_request requests i status flt) = True"
| "writes_tool_first act = False"

section \<open>Usage statistics of a tool\<close>

text \<open>
  \<open>ToolsManager.loadTools\<close> computes, for an administrator, how many days a tool was in
  use and which share of its time in the inventory that is. It turns every timestamp
  into milliseconds (\<open>new Date(...).getTime()\<close>); the rows below carry these
  milliseconds. JavaScript numbers are modelled as exact rationals. The clock is read
  once for every open assignment and once more after the loop: \<open>clock k\<close> is the
  \<open>k\<close>-th reading.
\<close>

record usage_row =
  u_assigned_at :: int
  u_returned_at :: "int option"

record tool_dates =
  purchase_date :: "int option"
  created_at :: int

definition ms_per_day :: rat where
  "ms_per_day = 1000 * 60 * 60 * 24"

text \<open>\<open>Math.round\<close>: the nearest integer, a half rounded up.\<close>

definition Math_round :: "rat \<Rightarrow> int" where
  "Math_round x = \<lfloor>x + 1 / 2\<rfloor>"

text \<open>
  The \<open>reduce\<close> over the assignments of the tool: the accumulator is the total so far
  (\<open>tot\<close>) together with the number of clock readings taken.
\<close>

fun reduce_usage :: "usage_row list \<Rightarrow> (nat \<Rightarrow> int) \<Rightarrow> rat \<times> nat \<Rightarrow> rat \<times> nat" where
  "reduce_usage [] clock (tot, k) = (tot, k)"
| "reduce_usage (a # as) clock (tot, k) =
     (case u_returned_at a of
        Some e \<Rightarrow>
          reduce_usage as clock (tot + of_int (e - u_assigned_at a) / ms_per_day, k)
      | None \<Rightarrow>
          reduce_usage as clock
            (tot + of_int (clock k - u_assigned_at a) / ms_per_day, Suc k))"

text \<open>The pair \<open>(total_usage_days, usage_percentage)\<close> stored with the tool.\<close>

definition usage_stats :: "tool_dates \<Rightarrow> usage_row list \<Rightarrow> (nat \<Rightarrow> int) \<Rightarrow> int \<times> int" where
  "usage_stats tool assignments clock =
     (if assignments \<noteq> [] then
        (let (total_usage_days, k) = reduce_usage assignments clock (0, 0);
             inventoryStartDate = (case purchase_date tool of Some d \<Rightarrow> d | None \<Rightarrow> created_at tool);
             now = clock k;
             totalDaysInInventory = of_int (now - inventoryStartDate) / ms_per_day;
             usage_percentage = (if totalDaysInInventory > 0
                                 then total_usage_days / totalDaysInInventory * 100 else 0)
         in (Math_round total_usage_days, Math_round usage_percentage))
      else (Math_round 0, Math_round 0))"

definition usage_percentage :: "tool_dates \<Rightarrow> usage_row list \<Rightarrow> (nat \<Rightarrow> int) \<Rightarrow> int" where
  "usage_percentage tool assignments clock = snd (usage_stats tool assignments clock)"





section \<open>Example data\<close>

text \<open>
  One tool, a drill kept at location \<open>l1\<close> and registered with person \<open>p1\<close>, and no
  assignment yet.
\<close>

definition demo_tool :: tool where
  "demo_tool = \<lparr>t_id = ''t1'', t_name = ''Drill'', t_status = Available,
                t_location_id = Some ''l1'', t_person_id = Some ''p1''\<rparr>"

definition demo_db :: db where
  "demo_db = \<lparr>tools = [demo_tool], tool_assignments = [], tool_event_log = [],
              tool_requests = []\<rparr>"

text \<open>The form filled in to hand the tool to person \<open>p1\<close>, and to send it to location \<open>l2\<close>.\<close>

definition demo_form :: formData where
  "demo_form = \<lparr>f_tool_id = ''t1'', f_assignment_type = Person, f_person_id = ''p1'',
                f_location_id = [], f_user_id = [], f_notes = []\<rparr>"

definition demo_form_loc :: formData where
  "demo_form_loc = \<lparr>f_tool_id = ''t1'', f_assignment_type = Location, f_person_id = [],
                    f_location_id = ''l2'', f_user_id = [], f_notes = []\<rparr>"

text \<open>The open assignment that submitting \<open>demo_form_loc\<close> inserts.\<close>

definition demo_active :: assignment where
  "demo_active = \<lparr>a_id = ''a1'', a_tool_id = ''t1'', a_person_id = None,
                  a_location_id = Some ''l2'', a_assigned_to = None,
                  a_assigned_at = ''2026-03-01T08:00:00.000Z'', a_returned_at = None,
                  a_notes = None, a_return_condition = Some Cond_good, a_return_notes = None,
                  a_return_location_id = None, a_return_status = Active,
                  a_return_requested_at = None, a_return_approved_by = None,
                  a_return_approved_at = None\<rparr>"

text \<open>The same assignment after a user asked to return the tool damaged to \<open>l3\<close>.\<close>

definition demo_pending :: assignment where
  "demo_pending = demo_active\<lparr>a_return_status := Pending_return,
                    a_return_requested_at := Some ''2026-03-02T08:00:00.000Z'',
                    a_return_location_id := Some ''l3'',
                    a_return_condition := Some Cond_damaged,
                    a_return_notes := Some ''cracked housing''\<rparr>"

text \<open>And after the administrator approved that return.\<close>

definition demo_returned :: assignment where
  "demo_returned = demo_pending\<lparr>a_returned_at := Some ''2026-03-03T08:00:00.000Z'',
                     a_return_status := Returned,
                     a_return_approved_by := Some ''admin'',
                     a_return_approved_at := Some ''2026-03-03T08:00:00.001Z''\<rparr>"

definition demo_db_active :: db where
  "demo_db_active = \<lparr>tools = [demo_tool\<lparr>t_status := In_use\<rparr>],
                     tool_assignments = [demo_active], tool_event_log = [],
                     tool_requests = []\<rparr>"

definition demo_db_pending :: db where
  "demo_db_pending = \<lparr>tools = [demo_tool\<lparr>t_status := In_use\<rparr>],
                      tool_assignments = [demo_pending], tool_event_log = [],
                      tool_requests = []\<rparr>"

definition demo_db_maintenance :: db where
  "demo_db_maintenance = \<lparr>tools = [demo_tool\<lparr>t_status := Maintenance\<rparr>],
                          tool_assignments = [], tool_event_log = [], tool_requests = []\<rparr>"

text \<open>The answers in which only the write to \<open>tools\<close> is rejected.\<close>

definition tool_write_rejected :: faults where
  "tool_write_rejected = \<lparr>assignmentError = False, toolError = True, logError = False\<rparr>"

definition demo_db_returned :: db where
  "demo_db_returned =
     \<lparr>tools = [demo_tool\<lparr>t_status := Damaged\<rparr>], tool_assignments = [demo_returned],
      tool_event_log = [assigned_event demo_form_loc (Some ''admin'') (Some demo_tool) demo_active],
      tool_requests = []\<rparr>"







section \<open>Facts about the embedding\<close>

subsection \<open>What the invariants depend on\<close>


lemma tool_assignments_update_tools [simp]:
  "tool_assignments (update_tools i f s) = tool_assignments s"
  by (simp add: update_tools_def)

lemma tools_update_assignments [simp]:
  "tools (update_assignments i f s) = tools s"
  by (simp add: update_assignments_def)

lemma open_assignments_cong:
  "tool_assignments s' = tool_assignments s \<Longrightarrow> open_assignments tid s' = open_assignments tid s"
  by (simp add: open_assignments_def)

lemma in_custody_cong:
  "tool_assignments s' = tool_assignments s \<Longrightarrow> in_custody tid s' = in_custody tid s"
  by (simp add: in_custody_def)

lemma consistent_cong:
  assumes "tool_assignments s' = tool_assignments s"
    and "map (\<lambda>t. (t_id t, t_status t)) (tools s') = map (\<lambda>t. (t_id t, t_status t)) (tools s)"
  shows "consistent s' = consistent s"
proof -
  have "set (map (\<lambda>t. (t_id t, t_status t)) (tools s')) = set (map (\<lambda>t. (t_id t, t_status t)) (tools s))"
    using assms(2) by simp
  then have eq: "(\<lambda>t. (t_id t, t_status t)) ` set (tools s') = (\<lambda>t. (t_id t, t_status t)) ` set (tools s)"
    by simp
  have "status_matches_ledger s' = (\<forall>p \<in> (\<lambda>t. (t_id t, t_status t)) ` set (tools s'). (snd p = In_use) = in_custody (fst p) s')"
    by (simp add: status_matches_ledger_def)
  also have "\<dots> = (\<forall>p \<in> (\<lambda>t. (t_id t, t_status t)) ` set (tools s). (snd p = In_use) = in_custody (fst p) s)"
    using eq in_custody_cong[OF assms(1)] by simp
  also have "\<dots> = status_matches_ledger s"
    by (simp add: status_matches_ledger_def)
  finally have "status_matches_ledger s' = status_matches_ledger s" .
  moreover have "rows_wellformed s' = rows_wellformed s"
    using assms(1) by (simp add: rows_wellformed_def)
  moreover have "one_open_per_tool s' = one_open_per_tool s"
    using assms(1) by (simp add: one_open_per_tool_def open_assignments_def)
  ultimately show ?thesis by (simp add: consistent_def)
qed

lemma one_open_all_tools:
  "one_open_per_tool s \<Longrightarrow> length (open_assignments tid s) \<le> 1"
proof (cases "open_assignments tid s")
  case Nil then show ?thesis by simp
next
  case (Cons a as)
  assume o: "one_open_per_tool s"
  from Cons have "a \<in> set (open_assignments tid s)" by simp
  then have "a \<in> set (tool_assignments s)" "a_tool_id a = tid"
    by (simp_all add: open_assignments_def)
  with o show ?thesis by (auto simp: one_open_per_tool_def)
qed

lemma key_unique:
  "distinct (map a_id xs) \<Longrightarrow> a \<in> set xs \<Longrightarrow> r \<in> set xs \<Longrightarrow> a_id r = a_id a \<Longrightarrow> r = a"
  by (meson distinct_map inj_on_def)


lemma not_returned_iff: "(st \<noteq> Returned) = (st = Active \<or> st = Pending_return)"
  by (cases st) simp_all

lemma keep_open_consistent:
  assumes c: "consistent s" and a: "a \<in> set (tool_assignments s)"
    and st: "a_return_status a \<noteq> Returned"
    and f_id: "\<And>r. a_id (f r) = a_id r"
    and f_tool: "\<And>r. a_tool_id (f r) = a_tool_id r"
    and f_ret: "\<And>r. a_returned_at (f r) = a_returned_at r"
    and f_st: "\<And>r. a_return_status (f r) \<noteq> Returned"
  shows "consistent (update_assignments (a_id a) f s)"
proof -
  define xs where "xs = tool_assignments s"
  define g where "g = (\<lambda>r. if a_id r = a_id a then f r else r)"
  define s' where "s' = update_assignments (a_id a) f s"
  have xs': "tool_assignments s' = map g xs" and tools': "tools s' = tools s"
    by (simp_all add: s'_def update_assignments_def g_def xs_def)
  from c have wf: "rows_wellformed s" and sm: "status_matches_ledger s"
    and oo: "one_open_per_tool s" by (simp_all add: consistent_def)
  from wf have dist: "distinct (map a_id xs)"
    and closed: "\<And>r. r \<in> set xs \<Longrightarrow> (a_returned_at r = None) = (a_return_status r \<noteq> Returned)"
    by (simp_all add: rows_wellformed_def xs_def)
  have a_xs: "a \<in> set xs" using a by (simp add: xs_def)
  have a_open: "a_returned_at a = None" using closed[OF a_xs] st by simp
  have g_id: "\<And>r. a_id (g r) = a_id r" and g_tool: "\<And>r. a_tool_id (g r) = a_tool_id r"
    and g_ret: "\<And>r. a_returned_at (g r) = a_returned_at r"
    by (simp_all add: g_def f_id f_tool f_ret)
  have g_st: "\<And>r. r \<in> set xs \<Longrightarrow> (a_return_status (g r) \<noteq> Returned) = (a_return_status r \<noteq> Returned)"
  proof -
    fix r assume r: "r \<in> set xs"
    show "(a_return_status (g r) \<noteq> Returned) = (a_return_status r \<noteq> Returned)"
    proof (cases "a_id r = a_id a")
      case True
      then have "r = a" using key_unique[OF dist a_xs r] by simp
      then show ?thesis using st f_st by (simp add: g_def)
    next
      case False then show ?thesis by (simp add: g_def)
    qed
  qed
  have wf': "rows_wellformed s'"
    using dist closed g_st by (simp add: rows_wellformed_def xs' g_id g_ret comp_def)
  have open': "\<And>tid. open_assignments tid s' = map g (open_assignments tid s)"
    by (simp add: open_assignments_def xs' filter_map comp_def g_tool g_ret xs_def)
  have oo': "one_open_per_tool s'"
    using oo by (simp add: one_open_per_tool_def open' xs' g_tool xs_def)
  have cust: "\<And>tid. in_custody tid s' = in_custody tid s"
    using g_st by (simp add: in_custody_def xs' g_tool g_ret not_returned_iff[symmetric] xs_def)
  have sm': "status_matches_ledger s'"
    using sm by (simp add: status_matches_ledger_def tools' cust)
  show ?thesis using wf' sm' oo' by (simp add: consistent_def s'_def)
qed


lemma in_custody_open:
  "in_custody tid s \<Longrightarrow> open_assignments tid s \<noteq> []"
  by (auto simp: in_custody_def open_assignments_def filter_empty_conv)

lemma open_in_custody:
  assumes "rows_wellformed s" and "open_assignments tid s \<noteq> []"
  shows "in_custody tid s"
proof -
  from assms(2) obtain r where r: "r \<in> set (tool_assignments s)" "a_tool_id r = tid"
    "a_returned_at r = None"
    by (auto simp: open_assignments_def filter_empty_conv)
  with assms(1) have "a_return_status r \<noteq> Returned" by (simp add: rows_wellformed_def)
  then have "a_return_status r = Active \<or> a_return_status r = Pending_return"
    by (simp add: not_returned_iff)
  with r show ?thesis unfolding in_custody_def by blast
qed

lemma close_consistent:
  assumes c: "consistent s" and a: "a \<in> set (tool_assignments s)"
    and st: "a_return_status a \<noteq> Returned"
    and f_id: "\<And>r. a_id (f r) = a_id r"
    and f_tool: "\<And>r. a_tool_id (f r) = a_tool_id r"
    and f_ret: "\<And>r. a_returned_at (f r) \<noteq> None"
    and f_st: "\<And>r. a_return_status (f r) = Returned"
    and nst: "st' \<noteq> In_use"
  shows "consistent (update_tools (a_tool_id a) (\<lambda>t. t\<lparr>t_status := st'\<rparr>)
                       (update_assignments (a_id a) f s))"
proof -
  define xs where "xs = tool_assignments s"
  define g where "g = (\<lambda>r. if a_id r = a_id a then f r else r)"
  define s' where "s' = update_tools (a_tool_id a) (\<lambda>t. t\<lparr>t_status := st'\<rparr>)
                       (update_assignments (a_id a) f s)"
  have xs': "tool_assignments s' = map g xs"
    by (simp add: s'_def update_assignments_def g_def xs_def)
  have tools': "tools s' = map (\<lambda>t. if t_id t = a_tool_id a then t\<lparr>t_status := st'\<rparr> else t) (tools s)"
    by (simp add: s'_def update_tools_def)
  from c have wf: "rows_wellformed s" and sm: "status_matches_ledger s"
    and oo: "one_open_per_tool s" by (simp_all add: consistent_def)
  from wf have dist: "distinct (map a_id xs)"
    and closed: "\<And>r. r \<in> set xs \<Longrightarrow> (a_returned_at r = None) = (a_return_status r \<noteq> Returned)"
    by (simp_all add: rows_wellformed_def xs_def)
  have a_xs: "a \<in> set xs" using a by (simp add: xs_def)
  have a_open: "a_returned_at a = None" using closed[OF a_xs] st by simp
  have g_id: "\<And>r. a_id (g r) = a_id r" and g_tool: "\<And>r. a_tool_id (g r) = a_tool_id r"
    by (simp_all add: g_def f_id f_tool)
  have d': "distinct (map a_id (map g xs))"
    using dist by (simp add: comp_def g_id)
  have cl': "\<forall>r \<in> set (map g xs). (a_returned_at r = None) = (a_return_status r \<noteq> Returned)"
    using closed by (auto simp: g_def f_ret f_st)
  have wf': "rows_wellformed s'"
    unfolding rows_wellformed_def xs' using d' cl' by blast
  have open': "\<And>tid. open_assignments tid s' =
      map g (filter (\<lambda>r. a_id r \<noteq> a_id a) (open_assignments tid s))"
  proof -
    fix tid
    have "filter ((\<lambda>r. a_tool_id r = tid \<and> a_returned_at r = None) \<circ> g) xs =
          filter (\<lambda>r. a_tool_id r = tid \<and> a_returned_at r = None \<and> a_id r \<noteq> a_id a) xs"
      by (rule filter_cong) (auto simp: g_def f_ret f_tool)
    then show "open_assignments tid s' =
      map g (filter (\<lambda>r. a_id r \<noteq> a_id a) (open_assignments tid s))"
      by (simp add: open_assignments_def xs' filter_map xs_def)
  qed
  have len: "\<And>tid. length (open_assignments tid s') \<le> length (open_assignments tid s)"
    by (simp add: open')
  have oo': "one_open_per_tool s'"
    unfolding one_open_per_tool_def
  proof
    fix r assume "r \<in> set (tool_assignments s')"
    have "length (open_assignments (a_tool_id r) s') \<le> length (open_assignments (a_tool_id r) s)"
      by (rule len)
    also have "\<dots> \<le> 1" by (rule one_open_all_tools[OF oo])
    finally show "length (open_assignments (a_tool_id r) s') \<le> 1" .
  qed
  have a_in: "a \<in> set (open_assignments (a_tool_id a) s)"
    using a a_open by (simp add: open_assignments_def)
  have "length (open_assignments (a_tool_id a) s) \<le> 1" by (rule one_open_all_tools[OF oo])
  with a_in have "open_assignments (a_tool_id a) s = [a]"
    by (cases "open_assignments (a_tool_id a) s") auto
  then have "open_assignments (a_tool_id a) s' = []" by (simp add: open')
  then have nocust: "\<not> in_custody (a_tool_id a) s'" using in_custody_open by blast
  have cust: "\<And>tid. tid \<noteq> a_tool_id a \<Longrightarrow> in_custody tid s' = in_custody tid s"
  proof -
    fix tid assume ne: "tid \<noteq> a_tool_id a"
    have "\<And>r. r \<in> set xs \<Longrightarrow> a_tool_id r = tid \<Longrightarrow> g r = r"
    proof -
      fix r assume r: "r \<in> set xs" "a_tool_id r = tid"
      have "a_id r \<noteq> a_id a" using key_unique[OF dist a_xs r(1)] r(2) ne by auto
      then show "g r = r" by (simp add: g_def)
    qed
    then show "in_custody tid s' = in_custody tid s"
      by (auto simp: in_custody_def xs' g_tool xs_def[symmetric])
  qed
  have sm': "status_matches_ledger s'"
    using sm nocust nst cust by (auto simp: status_matches_ledger_def tools')
  show ?thesis using wf' sm' oo' by (simp add: consistent_def s'_def)
qed

lemma insert_consistent:
  assumes c: "consistent s"
    and fresh: "a_id ad \<notin> set (map a_id (tool_assignments s))"
    and ad_open: "a_returned_at ad = None" and ad_st: "a_return_status ad = Active"
    and avail: "\<exists>t \<in> set (tools s). t_id t = a_tool_id ad \<and> t_status t = Available"
  shows "consistent (update_tools (a_tool_id ad) (\<lambda>t. t\<lparr>t_status := In_use\<rparr>)
                       (s\<lparr>tool_assignments := tool_assignments s @ [ad]\<rparr>))"
proof -
  define s' where "s' = update_tools (a_tool_id ad) (\<lambda>t. t\<lparr>t_status := In_use\<rparr>)
                       (s\<lparr>tool_assignments := tool_assignments s @ [ad]\<rparr>)"
  have xs': "tool_assignments s' = tool_assignments s @ [ad]"
    by (simp add: s'_def update_tools_def)
  have tools': "tools s' = map (\<lambda>t. if t_id t = a_tool_id ad then t\<lparr>t_status := In_use\<rparr> else t) (tools s)"
    by (simp add: s'_def update_tools_def)
  from c have wf: "rows_wellformed s" and sm: "status_matches_ledger s"
    and oo: "one_open_per_tool s" by (simp_all add: consistent_def)
  from avail sm have "\<not> in_custody (a_tool_id ad) s"
    by (auto simp: status_matches_ledger_def)
  then have none: "open_assignments (a_tool_id ad) s = []"
    using open_in_custody[OF wf] by blast
  have wf': "rows_wellformed s'"
    using wf fresh ad_open ad_st by (simp add: rows_wellformed_def xs')
  have open': "\<And>tid. open_assignments tid s' =
      open_assignments tid s @ (if tid = a_tool_id ad then [ad] else [])"
    using ad_open by (auto simp: open_assignments_def xs')
  have oo': "one_open_per_tool s'"
    unfolding one_open_per_tool_def
  proof
    fix r assume "r \<in> set (tool_assignments s')"
    show "length (open_assignments (a_tool_id r) s') \<le> 1"
      using one_open_all_tools[OF oo, of "a_tool_id r"] none by (simp add: open')
  qed
  have cust: "\<And>tid. in_custody tid s' = (in_custody tid s \<or> tid = a_tool_id ad)"
    using ad_open ad_st by (auto simp: in_custody_def xs')
  have sm': "status_matches_ledger s'"
    using sm by (auto simp: status_matches_ledger_def tools' cust)
  show ?thesis using wf' sm' oo' by (simp add: consistent_def s'_def)
qed


lemma consistent_event_log [simp]:
  "consistent (s\<lparr>tool_event_log := x\<rparr>) = consistent s"
  by (rule consistent_cong) simp_all

lemma consistent_update_requests [simp]:
  "consistent (update_requests i f s) = consistent s"
  by (rule consistent_cong) (simp_all add: update_requests_def)

lemma consistent_move [simp]:
  "consistent (update_tools i (\<lambda>t. t\<lparr>t_location_id := l\<rparr>) s) = consistent s"
  by (rule consistent_cong) (simp_all add: update_tools_def comp_def if_distrib cong: if_cong)

lemma offered_iff_available:
  "(i \<in> set (map t_id (AssignmentForm_loadData s))) =
   (\<exists>t \<in> set (tools s). t_id t = i \<and> t_status t = Available)"
  by (auto simp: AssignmentForm_loadData_def)

lemma handleSubmit_consistent:
  assumes "consistent s" and "admissible (Create_assignment fd user new_id now flt) s"
  shows "consistent (snd (AssignmentForm_handleSubmit fd user new_id now flt s))"
proof (cases "assignmentError flt")
  case True
  with assms(1) show ?thesis by (simp add: AssignmentForm_handleSubmit_def)
next
  case False
  with assms(2) have nt: "\<not> toolError flt" by (simp add: cut_short_def)
  define ad where "ad = assignmentData fd new_id now"
  have ad: "a_id ad = new_id" "a_tool_id ad = f_tool_id fd" "a_returned_at ad = None"
    "a_return_status ad = Active"
    by (simp_all add: ad_def assignmentData_def)
  have "consistent (update_tools (a_tool_id ad) (\<lambda>t. t\<lparr>t_status := In_use\<rparr>)
                       (s\<lparr>tool_assignments := tool_assignments s @ [ad]\<rparr>))"
    using assms ad offered_iff_available[of "f_tool_id fd" s]
    by (intro insert_consistent) simp_all
  then show ?thesis
    using False nt by (simp add: AssignmentForm_handleSubmit_def Let_def ad_def[symmetric] ad)
qed

lemma newStatus_not_in_use: "newStatus c \<noteq> In_use"
  by (cases c rule: newStatus.cases) simp_all

lemma handleReturn_consistent:
  assumes "consistent s"
    and "admissible (Request_return a isAdmin c loc notes user now now2 flt) s"
  shows "consistent (snd (ReturnDialog_handleReturn a isAdmin c loc notes user now now2 flt s))"
proof (cases isAdmin)
  case False
  show ?thesis
  proof (cases "assignmentError flt")
    case True
    with assms(1) False show ?thesis by (simp add: ReturnDialog_handleReturn_def)
  next
    case ne: False
    have "consistent (update_assignments (a_id a)
              (\<lambda>r. r\<lparr>a_return_status := Pending_return,
                      a_return_requested_at := Some now,
                      a_return_location_id := (if c = Cond_lost then None else or_null loc),
                      a_return_condition := Some c,
                      a_return_notes := or_null notes\<rparr>) s)"
      using assms by (intro keep_open_consistent) simp_all
    then show ?thesis using False ne by (simp add: ReturnDialog_handleReturn_def)
  qed
next
  case True
  show ?thesis
  proof (cases user)
    case None
    with assms(1) True show ?thesis by (simp add: ReturnDialog_handleReturn_def)
  next
    case (Some u)
    show ?thesis
    proof (cases "assignmentError flt")
      case True
      with assms(1) \<open>isAdmin\<close> Some show ?thesis by (simp add: ReturnDialog_handleReturn_def)
    next
      case False
      with assms(2) \<open>isAdmin\<close> have nt: "\<not> toolError flt" by (simp add: cut_short_def)
      have "consistent (update_tools (a_tool_id a) (\<lambda>t. t\<lparr>t_status := newStatus (Some c)\<rparr>)
               (update_assignments (a_id a)
                  (\<lambda>r. r\<lparr>a_returned_at := Some now,
                          a_return_location_id := (if c = Cond_lost then None else or_null loc),
                          a_return_condition := Some c,
                          a_return_notes := or_null notes,
                          a_return_status := Returned,
                          a_return_approved_by := Some u,
                          a_return_approved_at := Some now2\<rparr>) s))"
        using assms by (intro close_consistent newStatus_not_in_use) simp_all
      then show ?thesis
        using False nt \<open>isAdmin\<close> Some by (simp add: ReturnDialog_handleReturn_def Let_def)
    qed
  qed
qed

lemma approveReturn_consistent:
  assumes "consistent s" and "admissible (Approve_return a user now now2 flt) s"
  shows "consistent (snd (approveReturn a user now now2 flt s))"
proof (cases user)
  case None
  with assms(1) show ?thesis by (simp add: approveReturn_def)
next
  case (Some u)
  show ?thesis
  proof (cases "assignmentError flt")
    case True
    with assms(1) Some show ?thesis by (simp add: approveReturn_def)
  next
    case False
    with assms(2) have nt: "\<not> toolError flt" by (simp add: cut_short_def)
    have "consistent (update_tools (a_tool_id a)
             (\<lambda>t. t\<lparr>t_status := newStatus (a_return_condition a)\<rparr>)
             (update_assignments (a_id a)
                (\<lambda>r. r\<lparr>a_returned_at := Some now,
                        a_return_status := Returned,
                        a_return_approved_by := Some u,
                        a_return_approved_at := Some now2\<rparr>) s))"
      using assms by (intro close_consistent newStatus_not_in_use) simp_all
    then show ?thesis using False nt Some by (simp add: approveReturn_def Let_def)
  qed
qed

lemma rejectReturn_consistent:
  assumes "consistent s" and "admissible (Reject_return a flt) s"
  shows "consistent (snd (rejectReturn a flt s))"
proof (cases "assignmentError flt")
  case True
  with assms(1) show ?thesis by (simp add: rejectReturn_def)
next
  case False
  have "consistent (update_assignments (a_id a)
           (\<lambda>r. r\<lparr>a_return_status := Active,
                   a_return_requested_at := None,
                   a_return_location_id := None,
                   a_return_condition := None,
                   a_return_notes := None\<rparr>) s)"
    using assms by (intro keep_open_consistent) simp_all
  then show ?thesis using False by (simp add: rejectReturn_def)
qed

lemma updateRequestStatus_consistent:
  "consistent s \<Longrightarrow> consistent (snd (updateRequestStatus requests i status flt s))"
  by (simp add: updateRequestStatus_def Let_def split: option.splits prod.splits)

lemma assignToWarehouse_consistent:
  "consistent s \<Longrightarrow> consistent (snd (assignToWarehouse toolId warehouseId flt s))"
  by (simp add: assignToWarehouse_def)

lemma step_consistent:
  assumes "consistent s" and "admissible act s"
  shows "consistent (step act s)"
proof (cases act)
  case (Create_assignment fd user new_id now flt)
  with assms show ?thesis unfolding step_def by (simp add: handleSubmit_consistent del: admissible.simps)
next
  case (Request_return a isAdmin c loc rnotes user now now2 flt)
  with assms show ?thesis unfolding step_def by (simp add: handleReturn_consistent del: admissible.simps)
next
  case (Approve_return a user now now2 flt)
  with assms show ?thesis unfolding step_def by (simp add: approveReturn_consistent del: admissible.simps)
next
  case (Reject_return a flt)
  with assms show ?thesis unfolding step_def by (simp add: rejectReturn_consistent del: admissible.simps)
next
  case (Update_request requests i status flt)
  with assms show ?thesis unfolding step_def by (simp add: updateRequestStatus_consistent)
next
  case (Assign_to_warehouse toolId warehouseId flt)
  with assms show ?thesis unfolding step_def by (simp add: assignToWarehouse_consistent)
qed

lemma run_consistent:
  "consistent s \<Longrightarrow> run acts s = Some s' \<Longrightarrow> consistent s'"
proof (induction acts arbitrary: s)
  case Nil
  then show ?case by simp
next
  case (Cons act acts)
  from Cons.prems(2) have adm: "admissible act s" and rest: "run acts (step act s) = Some s'"
    by (simp_all split: if_splits)
  from Cons.IH[OF step_consistent[OF Cons.prems(1) adm] rest] show ?case .
qed


lemmas op_defs = AssignmentForm_handleSubmit_def ReturnDialog_handleReturn_def approveReturn_def
  rejectReturn_def handleReturnTool_def updateRequestStatus_def assignToWarehouse_def
  update_tools_def update_assignments_def update_requests_def select_tool_def
  select_assignment_def assignmentData_def assigned_event_def returned_event_def
  or_null_def opt_or_null_def request_move_def step_def cut_short_def AssignmentForm_loadData_def

lemmas inv_defs = consistent_def rows_wellformed_def status_matches_ledger_def
  one_open_per_tool_def in_custody_def open_assignments_def

lemmas demo_defs = demo_tool_def demo_db_def demo_form_def demo_form_loc_def demo_active_def
  demo_pending_def demo_returned_def demo_db_pending_def demo_db_maintenance_def
  demo_db_returned_def demo_db_active_def no_faults_def tool_write_rejected_def

lemma find_update_row:
  assumes "\<And>r. a_id (f r) = a_id r"
  shows "find (\<lambda>a. a_id a = i) (map (\<lambda>a. if a_id a = j then f a else a) xs) =
         (if i = j then map_option f (find (\<lambda>a. a_id a = i) xs) else find (\<lambda>a. a_id a = i) xs)"
  by (induction xs) (auto simp: assms)

lemma select_assignment_update:
  assumes "\<And>r. a_id (f r) = a_id r"
  shows "select_assignment i (update_assignments j f s) =
         (if i = j then map_option f (select_assignment i s) else select_assignment i s)"
  unfolding select_assignment_def update_assignments_def
  using find_update_row[of f i j "tool_assignments s", OF assms] by simp

lemma select_assignment_update_tools [simp]:
  "select_assignment i (update_tools j f s) = select_assignment i s"
  by (simp add: select_assignment_def)

lemma select_assignment_event_log [simp]:
  "select_assignment i (s\<lparr>tool_event_log := x\<rparr>) = select_assignment i s"
  by (simp add: select_assignment_def)

lemma map_update_tools_other:
  assumes "\<And>t. h (f t) = h t"
  shows "map h (tools (update_tools i f s)) = map h (tools s)"
  by (simp add: update_tools_def comp_def if_distrib[of h] assms cong: if_cong)

subsection \<open>The writes of each operation\<close>

lemma frames [simp]:
  "tool_event_log (update_tools i f s) = tool_event_log s"
  "tool_event_log (update_assignments j g s) = tool_event_log s"
  "tool_requests (update_tools i f s) = tool_requests s"
  "tool_requests (update_assignments j g s) = tool_requests s"
  "tools (update_requests k h s) = tools s"
  by (simp_all add: update_tools_def update_assignments_def update_requests_def)

lemma find_update_request:
  "find (\<lambda>r. r_id r = i) (map (\<lambda>r. if r_id r = i then r\<lparr>r_status := st\<rparr> else r) xs) =
   map_option (\<lambda>r. r\<lparr>r_status := st\<rparr>) (find (\<lambda>r. r_id r = i) xs)"
  by (induction xs) auto

lemma map_status_update_tools:
  "map t_status (tools (update_tools i (\<lambda>t. t\<lparr>t_status := st\<rparr>) s)) =
   map (\<lambda>t. if t_id t = i then st else t_status t) (tools s)"
  by (simp add: update_tools_def comp_def if_distrib[of t_status] cong: if_cong)

lemma map_location_update_tools:
  "map t_location_id (tools (update_tools i (\<lambda>t. t\<lparr>t_location_id := l\<rparr>) s)) =
   map (\<lambda>t. if t_id t = i then l else t_location_id t) (tools s)"
  by (simp add: update_tools_def comp_def if_distrib[of t_location_id] cong: if_cong)

lemma handleSubmit_writes:
  assumes "AssignmentForm_handleSubmit fd user new_id now flt s = (r, s')"
  shows "(assignmentError flt \<longrightarrow> r \<noteq> Completed \<and> s' = s) \<and>
         (r = Completed \<longrightarrow>
            assignment_write_visible (Create_assignment fd user new_id now flt) s s' \<and>
            tool_write_visible (Create_assignment fd user new_id now flt) s s' \<and>
            event_write_visible (Create_assignment fd user new_id now flt) s s') \<and>
         (cut_short flt \<longrightarrow>
            r \<noteq> Completed \<and>
            assignment_write_visible (Create_assignment fd user new_id now flt) s s' \<and>
            tools s' = tools s)"
  using assms
  by (auto simp: AssignmentForm_handleSubmit_def Let_def cut_short_def map_status_update_tools
           update_tools_def split: if_splits)

lemma handleReturn_writes:
  assumes "ReturnDialog_handleReturn a isAdmin c loc nts user now now2 flt s = (r, s')"
    and "select_assignment (a_id a) s \<noteq> None"
  shows "(assignmentError flt \<longrightarrow> r \<noteq> Completed \<and> s' = s) \<and>
         (r = Completed \<longrightarrow>
            assignment_write_visible (Request_return a isAdmin c loc nts user now now2 flt) s s' \<and>
            tool_write_visible (Request_return a isAdmin c loc nts user now now2 flt) s s' \<and>
            event_write_visible (Request_return a isAdmin c loc nts user now now2 flt) s s') \<and>
         (isAdmin \<and> user \<noteq> None \<and> cut_short flt \<longrightarrow>
            r \<noteq> Completed \<and>
            assignment_write_visible (Request_return a isAdmin c loc nts user now now2 flt) s s' \<and>
            tools s' = tools s)"
proof -
  from assms(2) obtain row where row: "select_assignment (a_id a) s = Some row" by auto
  show ?thesis
  proof (cases isAdmin)
    case False
    with assms(1) row show ?thesis
      by (auto simp: ReturnDialog_handleReturn_def select_assignment_update split: if_splits option.splits)
  next
    case True
    show ?thesis
    proof (cases user)
      case None
      with assms(1) True show ?thesis
        by (auto simp: ReturnDialog_handleReturn_def)
    next
      case (Some u)
      with assms(1) True row show ?thesis
        by (auto simp: ReturnDialog_handleReturn_def Let_def cut_short_def
                 select_assignment_update map_status_update_tools split: if_splits)
    qed
  qed
qed

lemma approveReturn_writes:
  assumes "approveReturn a user now now2 flt s = (r, s')"
    and "select_assignment (a_id a) s \<noteq> None"
  shows "(assignmentError flt \<longrightarrow> r \<noteq> Completed \<and> s' = s) \<and>
         (r = Completed \<longrightarrow>
            assignment_write_visible (Approve_return a user now now2 flt) s s' \<and>
            tool_write_visible (Approve_return a user now now2 flt) s s') \<and>
         (user \<noteq> None \<and> cut_short flt \<longrightarrow>
            r \<noteq> Completed \<and>
            assignment_write_visible (Approve_return a user now now2 flt) s s' \<and>
            tools s' = tools s)"
proof -
  from assms(2) obtain row where row: "select_assignment (a_id a) s = Some row" by auto
  show ?thesis
  proof (cases user)
    case None
    with assms(1) show ?thesis by (auto simp: approveReturn_def)
  next
    case (Some u)
    with assms(1) row show ?thesis
      by (auto simp: approveReturn_def Let_def cut_short_def select_assignment_update
               map_status_update_tools split: if_splits)
  qed
qed

lemma rejectReturn_writes:
  assumes "rejectReturn a flt s = (r, s')"
    and "select_assignment (a_id a) s \<noteq> None"
  shows "(assignmentError flt \<longrightarrow> r \<noteq> Completed \<and> s' = s) \<and>
         (r = Completed \<longrightarrow>
            assignment_write_visible (Reject_return a flt) s s' \<and>
            tool_write_visible (Reject_return a flt) s s')"
proof -
  from assms(2) obtain row where row: "select_assignment (a_id a) s = Some row" by auto
  with assms(1) show ?thesis
    by (auto simp: rejectReturn_def select_assignment_update split: if_splits)
qed

lemma updateRequestStatus_writes:
  assumes "updateRequestStatus requests i status flt s = (r, s')"
    and "find (\<lambda>r. r_id r = i) (tool_requests s) \<noteq> None"
  shows "(first_write_rejected (Update_request requests i status flt) s \<longrightarrow> r \<noteq> Completed \<and> s' = s) \<and>
         (r = Completed \<longrightarrow>
            assignment_write_visible (Update_request requests i status flt) s s' \<and>
            tool_write_visible (Update_request requests i status flt) s s') \<and>
         (second_write_rejected (Update_request requests i status flt) \<longrightarrow>
            r \<noteq> Completed \<and>
            tool_write_visible (Update_request requests i status flt) s s' \<and>
            tool_requests s' = tool_requests s)"
proof -
  from assms(2) obtain row where row: "find (\<lambda>r. r_id r = i) (tool_requests s) = Some row" by auto
  show ?thesis
  proof (cases "request_move requests i status")
    case None
    with assms(1) row show ?thesis
      by (auto simp: updateRequestStatus_def update_requests_def find_update_request split: if_splits)
  next
    case (Some m)
    obtain tid dest where m: "m = (tid, dest)" by (cases m)
    with Some assms(1) row show ?thesis
      by (auto simp: updateRequestStatus_def Let_def update_requests_def find_update_request
               map_location_update_tools update_tools_def split: if_splits)
  qed
qed

lemma assignToWarehouse_writes:
  assumes "assignToWarehouse toolId warehouseId flt s = (r, s')"
  shows "(toolError flt \<longrightarrow> r \<noteq> Completed \<and> s' = s) \<and>
         (r = Completed \<longrightarrow>
            tool_write_visible (Assign_to_warehouse toolId warehouseId flt) s s')"
  using assms by (auto simp: assignToWarehouse_def map_location_update_tools split: if_splits)

subsection \<open>The usage computation when all clock readings agree\<close>






section \<open>The status of a tool and its open assignments\<close>

text \<open>
  Claim C1, as the code has it. The spec asks that a tool's status is \<open>in_use\<close> exactly
  when one of its assignments is open with return status \<open>active\<close> or
  \<open>pending_return\<close>, and that every operation keeps it so. On a consistent ledger
  (the status invariant holds, no tool has two open assignments, and a row is closed
  exactly when its return status is \<open>returned\<close>) the status invariant holds again
  after every operation carried out under the conditions of \<open>admissible\<close>: an
  assignment is created for a tool whose status is \<open>available\<close> at that moment and
  gets an unused id; the return dialog is given a stored row with return status
  \<open>active\<close>; \<open>approveReturn\<close> and \<open>rejectReturn\<close> are given a stored row with
  return status \<open>pending_return\<close>; the operation is not cut short between its write to
  the assignment and its write to the tool. Updating a request and moving a tool to a
  warehouse keep it in any case.
\<close>

theorem status_invariant_preserved:
  "consistent s \<Longrightarrow> admissible act s \<Longrightarrow> status_matches_ledger (step act s)"
  using step_consistent[of s act] by (simp add: consistent_def)

theorem status_invariant_preserved_witness:
  "consistent demo_db_pending \<and>
   admissible (Approve_return demo_pending (Some ''admin'') ''2026-03-03T08:00:00.000Z''
       ''2026-03-03T08:00:00.001Z'' no_faults)
     demo_db_pending \<and>
   status_matches_ledger
     (step (Approve_return demo_pending (Some ''admin'') ''2026-03-03T08:00:00.000Z''
         ''2026-03-03T08:00:00.001Z'' no_faults)
        demo_db_pending)"
proof -
  have c: "consistent demo_db_pending"
    by (simp add: inv_defs demo_defs)
  have a: "admissible (Approve_return demo_pending (Some ''admin'') ''2026-03-03T08:00:00.000Z''
      ''2026-03-03T08:00:00.001Z''
             no_faults) demo_db_pending"
    by (simp add: op_defs demo_defs)
  from status_invariant_preserved[OF c a] c a show ?thesis by simp
qed

text \<open>
  The Dashboard's "return my tool" does not keep the invariant of claim C1: after the
  drill is assigned to \<open>p1\<close> and \<open>p1\<close> returns it from the Dashboard, the drill is
  \<open>available\<close> while its assignment is still open and active.
\<close>

theorem self_return_breaks_status_invariant:
  "consistent demo_db \<and>
   consistent (snd (AssignmentForm_handleSubmit demo_form (Some ''admin'') ''a1''
                      ''2026-03-01T08:00:00.000Z'' no_faults demo_db)) \<and>
   fst (handleReturnTool ''t1'' True no_faults
          (snd (AssignmentForm_handleSubmit demo_form (Some ''admin'') ''a1''
                  ''2026-03-01T08:00:00.000Z'' no_faults demo_db))) = Completed \<and>
   \<not> status_matches_ledger
       (snd (handleReturnTool ''t1'' True no_faults
          (snd (AssignmentForm_handleSubmit demo_form (Some ''admin'') ''a1''
                  ''2026-03-01T08:00:00.000Z'' no_faults demo_db))))"
  by (simp add: inv_defs op_defs demo_defs)

section \<open>One open assignment for each tool\<close>

text \<open>
  Claim C2, as the code has it. Start from a consistent ledger and carry out operations
  one after the other, each under the conditions of \<open>admissible\<close> on the state it
  meets: an assignment is created for a tool whose status is \<open>available\<close> in that
  state and gets an unused id; the return dialog is given a stored row with return status
  \<open>active\<close>; \<open>approveReturn\<close> and \<open>rejectReturn\<close> are given a stored row with
  return status \<open>pending_return\<close>; no operation is cut short; requests are updated and
  tools moved to a warehouse at will. Then in the state reached no tool has more than one
  open assignment.
\<close>

theorem run_one_open_per_tool:
  "consistent s \<Longrightarrow> run acts s = Some s' \<Longrightarrow> one_open_per_tool s'"
  using run_consistent[of s acts s'] by (simp add: consistent_def)

theorem run_one_open_per_tool_witness:
  "consistent demo_db \<and>
   run [Create_assignment demo_form_loc (Some ''admin'') ''a1'' ''2026-03-01T08:00:00.000Z'' no_faults,
        Request_return demo_active False Cond_damaged ''l3'' ''cracked housing'' (Some ''u1'')
          ''2026-03-02T08:00:00.000Z'' ''2026-03-02T08:00:00.001Z'' no_faults,
        Approve_return demo_pending (Some ''admin'') ''2026-03-03T08:00:00.000Z''
            ''2026-03-03T08:00:00.001Z'' no_faults]
     demo_db = Some demo_db_returned \<and>
   one_open_per_tool demo_db_returned"
proof -
  have c: "consistent demo_db"
    by (simp add: inv_defs demo_defs)
  have r: "run [Create_assignment demo_form_loc (Some ''admin'') ''a1'' ''2026-03-01T08:00:00.000Z'' no_faults,
        Request_return demo_active False Cond_damaged ''l3'' ''cracked housing'' (Some ''u1'')
          ''2026-03-02T08:00:00.000Z'' ''2026-03-02T08:00:00.001Z'' no_faults,
        Approve_return demo_pending (Some ''admin'') ''2026-03-03T08:00:00.000Z''
            ''2026-03-03T08:00:00.001Z'' no_faults]
     demo_db = Some demo_db_returned"
    by (simp add: op_defs demo_defs)
  from run_one_open_per_tool[OF c r] c r show ?thesis by simp
qed

text \<open>
  Claim C2 as the spec states it fails in two ways, both from a consistent ledger.
  A form that was opened while the drill was available still offers it after the drill
  has been assigned, and a second submission inserts a second open assignment. And after
  the Dashboard's "return my tool", which makes the drill \<open>available\<close> and leaves its
  assignment open, even a freshly opened form offers the drill, with the same result.
\<close>

theorem second_open_assignment_reachable:
  "consistent demo_db \<and>
   f_tool_id demo_form \<in> set (map t_id (AssignmentForm_loadData demo_db)) \<and>
   \<not> one_open_per_tool
       (snd (AssignmentForm_handleSubmit demo_form (Some ''admin'') ''a2''
               ''2026-03-04T08:00:00.000Z'' no_faults
          (snd (AssignmentForm_handleSubmit demo_form (Some ''admin'') ''a1''
                  ''2026-03-01T08:00:00.000Z'' no_faults demo_db)))) \<and>
   admissible (Create_assignment demo_form (Some ''admin'') ''a2'' ''2026-03-04T08:00:00.000Z''
                 no_faults)
     (snd (handleReturnTool ''t1'' True no_faults
        (snd (AssignmentForm_handleSubmit demo_form (Some ''admin'') ''a1''
                ''2026-03-01T08:00:00.000Z'' no_faults demo_db)))) \<and>
   \<not> one_open_per_tool
       (snd (AssignmentForm_handleSubmit demo_form (Some ''admin'') ''a2''
               ''2026-03-04T08:00:00.000Z'' no_faults
          (snd (handleReturnTool ''t1'' True no_faults
             (snd (AssignmentForm_handleSubmit demo_form (Some ''admin'') ''a1''
                     ''2026-03-01T08:00:00.000Z'' no_faults demo_db))))))"
  by (simp add: inv_defs op_defs demo_defs)

section \<open>Errors in the middle of an operation\<close>

text \<open>
  Claim C3, as the code has it. The spec asks every operation to be atomic. The handlers
  issue their writes one after the other and undo nothing. For every operation whose
  target row is stored:
  \<^item> when its first write is rejected, it does not complete and the state is as before;
  \<^item> when it completes, its write to the assignments (or the requests) and its write to
    the tools can both be read back from the new state, and \<open>handleSubmit\<close> and the
    administrator's return have appended their event exactly when the insert of the
    event was accepted;
  \<^item> when its second write is rejected after the first was accepted, it does not
    complete, the first write can be read back from the new state and the table of the
    second write is as before.
\<close>

theorem writes_not_rolled_back:
  assumes "perform act s = (r, s')" and "targets_exist act s"
  shows "(first_write_rejected act s \<longrightarrow> r \<noteq> Completed \<and> s' = s) \<and>
         (r = Completed \<longrightarrow>
            assignment_write_visible act s s' \<and> tool_write_visible act s s' \<and>
            event_write_visible act s s') \<and>
         (second_write_rejected act \<longrightarrow>
            r \<noteq> Completed \<and>
            (if writes_tool_first act
             then tool_write_visible act s s' \<and> tool_requests s' = tool_requests s
             else assignment_write_visible act s s' \<and> tools s' = tools s))"
proof (cases act)
  case (Create_assignment fd user new_id now flt)
  with assms handleSubmit_writes[of fd user new_id now flt s r s'] show ?thesis by simp
next
  case (Request_return a isAdmin c loc rnotes user now now2 flt)
  with assms handleReturn_writes[of a isAdmin c loc rnotes user now now2 flt s r s']
  show ?thesis by simp
next
  case (Approve_return a user now now2 flt)
  with assms approveReturn_writes[of a user now now2 flt s r s'] show ?thesis by simp
next
  case (Reject_return a flt)
  with assms rejectReturn_writes[of a flt s r s'] show ?thesis by simp
next
  case (Update_request requests i status flt)
  with assms updateRequestStatus_writes[of requests i status flt s r s'] show ?thesis by simp
next
  case (Assign_to_warehouse toolId warehouseId flt)
  with assms assignToWarehouse_writes[of toolId warehouseId flt s r s'] show ?thesis by simp
qed

theorem writes_not_rolled_back_witness:
  "first_write_rejected
     (Approve_return demo_pending (Some ''admin'') ''2026-03-03T08:00:00.000Z''
        ''2026-03-03T08:00:00.001Z''
        \<lparr>assignmentError = True, toolError = False, logError = False\<rparr>) demo_db_pending \<and>
   perform
     (Approve_return demo_pending (Some ''admin'') ''2026-03-03T08:00:00.000Z''
        ''2026-03-03T08:00:00.001Z''
        \<lparr>assignmentError = True, toolError = False, logError = False\<rparr>) demo_db_pending =
     (Alerted ''Error approving return'', demo_db_pending) \<and>
   perform
     (Approve_return demo_pending (Some ''admin'') ''2026-03-03T08:00:00.000Z''
        ''2026-03-03T08:00:00.001Z'' no_faults) demo_db_pending =
     (Completed,
      \<lparr>tools = [demo_tool\<lparr>t_status := Damaged\<rparr>], tool_assignments = [demo_returned],
       tool_event_log = [], tool_requests = []\<rparr>) \<and>
   second_write_rejected
     (Approve_return demo_pending (Some ''admin'') ''2026-03-03T08:00:00.000Z''
        ''2026-03-03T08:00:00.001Z'' tool_write_rejected) \<and>
   perform
     (Approve_return demo_pending (Some ''admin'') ''2026-03-03T08:00:00.000Z''
        ''2026-03-03T08:00:00.001Z'' tool_write_rejected) demo_db_pending =
     (Alerted ''Error approving return'',
      \<lparr>tools = [demo_tool\<lparr>t_status := In_use\<rparr>], tool_assignments = [demo_returned],
       tool_event_log = [], tool_requests = []\<rparr>)"
proof -
  have t: "\<And>flt. targets_exist
             (Approve_return demo_pending (Some ''admin'') ''2026-03-03T08:00:00.000Z''
                ''2026-03-03T08:00:00.001Z'' flt) demo_db_pending"
    by (simp add: op_defs demo_defs)
  have p1: "perform
     (Approve_return demo_pending (Some ''admin'') ''2026-03-03T08:00:00.000Z''
        ''2026-03-03T08:00:00.001Z''
        \<lparr>assignmentError = True, toolError = False, logError = False\<rparr>) demo_db_pending =
     (Alerted ''Error approving return'', demo_db_pending)"
    by (simp add: op_defs demo_defs)
  have p2: "perform
     (Approve_return demo_pending (Some ''admin'') ''2026-03-03T08:00:00.000Z''
        ''2026-03-03T08:00:00.001Z'' no_faults) demo_db_pending =
     (Completed,
      \<lparr>tools = [demo_tool\<lparr>t_status := Damaged\<rparr>], tool_assignments = [demo_returned],
       tool_event_log = [], tool_requests = []\<rparr>)"
    by (simp add: op_defs demo_defs)
  have p3: "perform
     (Approve_return demo_pending (Some ''admin'') ''2026-03-03T08:00:00.000Z''
        ''2026-03-03T08:00:00.001Z'' tool_write_rejected) demo_db_pending =
     (Alerted ''Error approving return'',
      \<lparr>tools = [demo_tool\<lparr>t_status := In_use\<rparr>], tool_assignments = [demo_returned],
       tool_event_log = [], tool_requests = []\<rparr>)"
    by (simp add: op_defs demo_defs)
  from writes_not_rolled_back[OF p1 t] writes_not_rolled_back[OF p2 t]
       writes_not_rolled_back[OF p3 t] p1 p2 p3
  show ?thesis
    by (simp add: op_defs demo_defs)
qed

text \<open>
  Claim C3 fails when the second write is rejected: \<open>approveReturn\<close> shows its alert,
  and the assignment is marked returned while the tool is still \<open>in_use\<close>.
\<close>

theorem approveReturn_partial_state:
  "fst (approveReturn demo_pending (Some ''admin'') ''2026-03-03T08:00:00.000Z''
      ''2026-03-03T08:00:00.001Z''
          tool_write_rejected demo_db_pending) = Alerted ''Error approving return'' \<and>
   snd (approveReturn demo_pending (Some ''admin'') ''2026-03-03T08:00:00.000Z''
       ''2026-03-03T08:00:00.001Z''
          tool_write_rejected demo_db_pending) \<noteq> demo_db_pending \<and>
   map a_return_status
     (tool_assignments
        (snd (approveReturn demo_pending (Some ''admin'') ''2026-03-03T08:00:00.000Z''
            ''2026-03-03T08:00:00.001Z''
                tool_write_rejected demo_db_pending))) = [Returned] \<and>
   map t_status
     (tools (snd (approveReturn demo_pending (Some ''admin'') ''2026-03-03T08:00:00.000Z''
         ''2026-03-03T08:00:00.001Z''
                    tool_write_rejected demo_db_pending))) = [In_use]"
  by (simp add: op_defs demo_defs)

section \<open>Events\<close>

text \<open>
  Claim C4 asks for exactly one new event from every call of \<open>approveReturn\<close>. On the
  pending return of the example \<open>approveReturn\<close> completes and the event log is as it
  was, while the administrator's direct return of the same assignment appends one event.
\<close>

theorem approveReturn_appends_no_event:
  "fst (approveReturn demo_pending (Some ''admin'') ''2026-03-03T08:00:00.000Z''
      ''2026-03-03T08:00:00.001Z'' no_faults
          demo_db_pending) = Completed \<and>
   tool_event_log (snd (approveReturn demo_pending (Some ''admin'') ''2026-03-03T08:00:00.000Z''
       ''2026-03-03T08:00:00.001Z''
                          no_faults demo_db_pending)) = tool_event_log demo_db_pending \<and>
   length (tool_event_log
             (snd (ReturnDialog_handleReturn demo_active True Cond_damaged ''l3''
                     ''cracked housing'' (Some ''admin'') ''2026-03-03T08:00:00.000Z''
                         ''2026-03-03T08:00:00.001Z'' no_faults
                     demo_db_active))) = length (tool_event_log demo_db_active) + 1"
  by (simp add: op_defs demo_defs)

section \<open>Approving a return\<close>

text \<open>
  Claim C5, as the code has it. When \<open>approveReturn\<close> is given a stored assignment (in
  particular one whose return status is \<open>pending_return\<close>) and no write is rejected, it
  completes; the row gets \<open>returned_at\<close>, return status \<open>returned\<close>, the approver and
  the approval time, and keeps everything else, so the recorded condition, notes and
  return location stay; the tools with the assignment's tool id get the status that the
  recorded condition maps to (good or none to available, maintenance to maintenance,
  damaged to damaged, lost to lost). The location and the person of every tool stay as
  they were, and no event is appended.
\<close>

theorem approveReturn_effect:
  assumes "select_assignment (a_id a) s = Some a"
    and "\<not> assignmentError flt" and "\<not> toolError flt"
    and "approveReturn a (Some u) now now2 flt s = (r, s')"
  shows "r = Completed \<and>
         select_assignment (a_id a) s' =
           Some (a\<lparr>a_returned_at := Some now, a_return_status := Returned,
                   a_return_approved_by := Some u, a_return_approved_at := Some now2\<rparr>) \<and>
         map t_status (tools s') =
           map (\<lambda>t. if t_id t = a_tool_id a
                     then (case a_return_condition a of
                             Some Cond_maintenance \<Rightarrow> Maintenance
                           | Some Cond_damaged \<Rightarrow> Damaged
                           | Some Cond_lost \<Rightarrow> Lost
                           | Some Cond_good \<Rightarrow> Available
                           | None \<Rightarrow> Available)
                     else t_status t) (tools s) \<and>
         map t_id (tools s') = map t_id (tools s) \<and>
         map t_location_id (tools s') = map t_location_id (tools s) \<and>
         map t_person_id (tools s') = map t_person_id (tools s) \<and>
         tool_event_log s' = tool_event_log s"
proof -
  let ?f = "\<lambda>r. r\<lparr>a_returned_at := Some now, a_return_status := Returned,
                    a_return_approved_by := Some u, a_return_approved_at := Some now2\<rparr>"
  have s': "s' = update_tools (a_tool_id a) (\<lambda>t. t\<lparr>t_status := newStatus (a_return_condition a)\<rparr>)
                   (update_assignments (a_id a) ?f s)"
    and r: "r = Completed"
    using assms(2-4) by (simp_all add: approveReturn_def Let_def)
  have row: "select_assignment (a_id a) s' = Some (?f a)"
    unfolding s' using assms(1) by (simp add: select_assignment_update)
  have ns: "newStatus (a_return_condition a) =
        (case a_return_condition a of
           Some Cond_maintenance \<Rightarrow> Maintenance
         | Some Cond_damaged \<Rightarrow> Damaged
         | Some Cond_lost \<Rightarrow> Lost
         | Some Cond_good \<Rightarrow> Available
         | None \<Rightarrow> Available)"
    by (simp split: option.splits condition.splits)
  have st: "map t_status (tools s') =
        map (\<lambda>t. if t_id t = a_tool_id a then newStatus (a_return_condition a) else t_status t)
          (tools s)"
    unfolding s' by (simp add: update_tools_def comp_def if_distrib[of t_status] cong: if_cong)
  have others: "map t_id (tools s') = map t_id (tools s)"
    "map t_location_id (tools s') = map t_location_id (tools s)"
    "map t_person_id (tools s') = map t_person_id (tools s)"
    unfolding s' by (simp_all add: map_update_tools_other)
  have ev: "tool_event_log s' = tool_event_log s"
    unfolding s' by (simp add: update_tools_def update_assignments_def)
  show ?thesis using r row st ns others ev by simp
qed

theorem approveReturn_effect_witness:
  "select_assignment (a_id demo_pending) demo_db_pending = Some demo_pending \<and>
   approveReturn demo_pending (Some ''admin'') ''2026-03-03T08:00:00.000Z''
       ''2026-03-03T08:00:00.001Z'' no_faults demo_db_pending =
     (Completed,
      \<lparr>tools = [demo_tool\<lparr>t_status := Damaged\<rparr>], tool_assignments = [demo_returned],
       tool_event_log = [], tool_requests = []\<rparr>) \<and>
   a_return_location_id demo_returned = Some ''l3'' \<and>
   t_location_id (demo_tool\<lparr>t_status := Damaged\<rparr>) = Some ''l1''"
proof -
  have sel: "select_assignment (a_id demo_pending) demo_db_pending = Some demo_pending"
    by (simp add: op_defs demo_defs)
  have nf: "\<not> assignmentError no_faults" "\<not> toolError no_faults"
    by (simp_all add: no_faults_def)
  have run: "approveReturn demo_pending (Some ''admin'') ''2026-03-03T08:00:00.000Z''
      ''2026-03-03T08:00:00.001Z'' no_faults
               demo_db_pending =
     (Completed,
      \<lparr>tools = [demo_tool\<lparr>t_status := Damaged\<rparr>], tool_assignments = [demo_returned],
       tool_event_log = [], tool_requests = []\<rparr>)"
    by (simp add: op_defs demo_defs)
  from approveReturn_effect[OF sel nf run] sel run show ?thesis
    by (simp add: demo_defs)
qed

text \<open>
  Claim C5 says that the tool moves to the recorded return location. In the example the
  pending return names \<open>l3\<close>; after the approval the drill is still at \<open>l1\<close>.
\<close>

theorem approveReturn_does_not_relocate:
  "a_return_status demo_pending = Pending_return \<and>
   a_return_location_id demo_pending = Some ''l3'' \<and>
   fst (approveReturn demo_pending (Some ''admin'') ''2026-03-03T08:00:00.000Z''
       ''2026-03-03T08:00:00.001Z'' no_faults
          demo_db_pending) = Completed \<and>
   map t_location_id
     (tools (snd (approveReturn demo_pending (Some ''admin'') ''2026-03-03T08:00:00.000Z''
         ''2026-03-03T08:00:00.001Z''
                    no_faults demo_db_pending))) = [Some ''l1'']"
  by (simp add: op_defs demo_defs)

section \<open>Creating an assignment\<close>

text \<open>
  Claim C6, as the code has it. \<open>handleSubmit\<close> does not look at the tool's status.
  Whenever neither the insert nor the update is rejected it completes: it appends one
  assignment for the tool with return status \<open>active\<close>, no \<open>returned_at\<close>, and the
  custody target of the form (a person, a location, or a user with a location); the tools
  with that id get the status \<open>in_use\<close>; the location and the person of every tool
  stay as they were.
\<close>

theorem handleSubmit_effect:
  assumes "\<not> assignmentError flt" and "\<not> toolError flt"
    and "AssignmentForm_handleSubmit fd user new_id now flt s = (r, s')"
  shows "r = Completed \<and>
         tool_assignments s' = tool_assignments s @ [assignmentData fd new_id now] \<and>
         a_tool_id (assignmentData fd new_id now) = f_tool_id fd \<and>
         a_return_status (assignmentData fd new_id now) = Active \<and>
         a_returned_at (assignmentData fd new_id now) = None \<and>
         a_person_id (assignmentData fd new_id now) =
           (if f_assignment_type fd = Person then Some (f_person_id fd) else None) \<and>
         a_location_id (assignmentData fd new_id now) =
           (if f_assignment_type fd = Person then None else Some (f_location_id fd)) \<and>
         a_assigned_to (assignmentData fd new_id now) =
           (if f_assignment_type fd = User then Some (f_user_id fd) else None) \<and>
         map t_status (tools s') =
           map (\<lambda>t. if t_id t = f_tool_id fd then In_use else t_status t) (tools s) \<and>
         map t_id (tools s') = map t_id (tools s) \<and>
         map t_location_id (tools s') = map t_location_id (tools s) \<and>
         map t_person_id (tools s') = map t_person_id (tools s)"
proof -
  define s2 where "s2 = update_tools (f_tool_id fd) (\<lambda>t. t\<lparr>t_status := In_use\<rparr>)
                          (s\<lparr>tool_assignments := tool_assignments s @ [assignmentData fd new_id now]\<rparr>)"
  have r: "r = Completed"
    and s': "s' = s2 \<or> (\<exists>ev. s' = s2\<lparr>tool_event_log := tool_event_log s2 @ [ev]\<rparr>)"
    using assms by (auto simp: AssignmentForm_handleSubmit_def Let_def s2_def split: if_splits)
  from s' have tl: "tools s' = tools s2" and al: "tool_assignments s' = tool_assignments s2"
    by auto
  have a2: "tool_assignments s2 = tool_assignments s @ [assignmentData fd new_id now]"
    by (simp add: s2_def)
  have st: "map t_status (tools s2) =
        map (\<lambda>t. if t_id t = f_tool_id fd then In_use else t_status t) (tools s)"
    by (simp add: s2_def update_tools_def comp_def if_distrib[of t_status] cong: if_cong)
  have others: "map t_id (tools s2) = map t_id (tools s)"
    "map t_location_id (tools s2) = map t_location_id (tools s)"
    "map t_person_id (tools s2) = map t_person_id (tools s)"
    by (simp_all add: s2_def update_tools_def comp_def if_distrib cong: if_cong)
  have fields: "a_tool_id (assignmentData fd new_id now) = f_tool_id fd"
    "a_return_status (assignmentData fd new_id now) = Active"
    "a_returned_at (assignmentData fd new_id now) = None"
    "a_person_id (assignmentData fd new_id now) =
       (if f_assignment_type fd = Person then Some (f_person_id fd) else None)"
    "a_location_id (assignmentData fd new_id now) =
       (if f_assignment_type fd = Person then None else Some (f_location_id fd))"
    "a_assigned_to (assignmentData fd new_id now) =
       (if f_assignment_type fd = User then Some (f_user_id fd) else None)"
    by (cases "f_assignment_type fd"; simp add: assignmentData_def)+
  show ?thesis using r tl al a2 st others fields by simp
qed

theorem handleSubmit_effect_witness:
  "AssignmentForm_handleSubmit demo_form_loc (Some ''admin'') ''a1'' ''2026-03-01T08:00:00.000Z''
     no_faults demo_db =
     (Completed,
      \<lparr>tools = [demo_tool\<lparr>t_status := In_use\<rparr>], tool_assignments = [demo_active],
       tool_event_log =
         [assigned_event demo_form_loc (Some ''admin'') (Some demo_tool) demo_active],
       tool_requests = []\<rparr>) \<and>
   assignmentData demo_form_loc ''a1'' ''2026-03-01T08:00:00.000Z'' = demo_active \<and>
   a_return_status demo_active = Active \<and> a_returned_at demo_active = None \<and>
   a_location_id demo_active = Some ''l2'' \<and>
   t_location_id (demo_tool\<lparr>t_status := In_use\<rparr>) = Some ''l1''"
proof -
  have nf: "\<not> assignmentError no_faults" "\<not> toolError no_faults"
    by (simp_all add: no_faults_def)
  have run: "AssignmentForm_handleSubmit demo_form_loc (Some ''admin'') ''a1''
      ''2026-03-01T08:00:00.000Z'' no_faults demo_db =
     (Completed,
      \<lparr>tools = [demo_tool\<lparr>t_status := In_use\<rparr>], tool_assignments = [demo_active],
       tool_event_log =
         [assigned_event demo_form_loc (Some ''admin'') (Some demo_tool) demo_active],
       tool_requests = []\<rparr>)"
    by (simp add: op_defs demo_defs)
  from handleSubmit_effect[OF nf run] run show ?thesis
    by (simp add: demo_defs)
qed

text \<open>
  Claim C6 says that the call fails for a tool that is not available and that the tool
  moves to the target. The drill under maintenance at \<open>l1\<close> is assigned to \<open>l2\<close>: the
  call completes, the drill is \<open>in_use\<close> and still at \<open>l1\<close>.
\<close>

theorem handleSubmit_accepts_unavailable_tool:
  "map t_status (tools demo_db_maintenance) = [Maintenance] \<and>
   fst (AssignmentForm_handleSubmit demo_form_loc (Some ''admin'') ''a1''
          ''2026-03-01T08:00:00.000Z'' no_faults demo_db_maintenance) = Completed \<and>
   map t_status
     (tools (snd (AssignmentForm_handleSubmit demo_form_loc (Some ''admin'') ''a1''
                    ''2026-03-01T08:00:00.000Z'' no_faults demo_db_maintenance))) = [In_use] \<and>
   f_location_id demo_form_loc = ''l2'' \<and>
   map t_location_id
     (tools (snd (AssignmentForm_handleSubmit demo_form_loc (Some ''admin'') ''a1''
                    ''2026-03-01T08:00:00.000Z'' no_faults demo_db_maintenance))) = [Some ''l1'']"
  by (simp add: op_defs demo_defs)

section \<open>Rejecting a return\<close>

text \<open>
  Claim C7. For a stored assignment whose return status is \<open>pending_return\<close>,
  \<open>rejectReturn\<close> (its write accepted) completes, sets the return status to \<open>active\<close>
  and clears \<open>return_requested_at\<close>, \<open>return_location_id\<close>, \<open>return_condition\<close> and
  \<open>return_notes\<close>, leaving the other columns and the tools as they were. After a
  following return or return request on the rejected row, the condition, the notes and
  the return location of the row are those of the new request alone.
\<close>

theorem rejectReturn_clears_return_fields:
  assumes "select_assignment (a_id a) s = Some a"
    and "a_return_status a = Pending_return"
    and "\<not> assignmentError flt"
    and "rejectReturn a flt s = (r, s')"
    and "a' = a\<lparr>a_return_status := Active, a_return_requested_at := None,
                  a_return_location_id := None, a_return_condition := None,
                  a_return_notes := None\<rparr>"
    and "\<not> assignmentError flt2" and "isAdmin \<longrightarrow> user \<noteq> None"
    and "ReturnDialog_handleReturn a' isAdmin c loc nts user now now2 flt2 s' = (r2, s2)"
  shows "r = Completed \<and>
         select_assignment (a_id a) s' = Some a' \<and>
         tools s' = tools s \<and>
         map_option (\<lambda>row. (a_return_condition row, a_return_notes row, a_return_location_id row))
           (select_assignment (a_id a) s2) =
           Some (Some c, or_null nts, if c = Cond_lost then None else or_null loc)"
proof -
  let ?f = "\<lambda>r. r\<lparr>a_return_status := Active, a_return_requested_at := None,
                    a_return_location_id := None, a_return_condition := None,
                    a_return_notes := None\<rparr>"
  have r: "r = Completed" and s': "s' = update_assignments (a_id a) ?f s"
    using assms(3,4) by (simp_all add: rejectReturn_def)
  have row: "select_assignment (a_id a) s' = Some a'"
    unfolding s' using assms(1,5) by (simp add: select_assignment_update)
  have tl: "tools s' = tools s" unfolding s' by simp
  have id': "a_id a' = a_id a" using assms(5) by simp
  have "map_option (\<lambda>row. (a_return_condition row, a_return_notes row, a_return_location_id row))
           (select_assignment (a_id a) s2) =
           Some (Some c, or_null nts, if c = Cond_lost then None else or_null loc)"
  proof (cases isAdmin)
    case False
    with assms(6,8) have "s2 = update_assignments (a_id a')
              (\<lambda>r. r\<lparr>a_return_status := Pending_return,
                      a_return_requested_at := Some now,
                      a_return_location_id := (if c = Cond_lost then None else or_null loc),
                      a_return_condition := Some c,
                      a_return_notes := or_null nts\<rparr>) s'"
      by (simp add: ReturnDialog_handleReturn_def)
    then show ?thesis using row id' by (simp add: select_assignment_update)
  next
    case True
    with assms(7) obtain u where u: "user = Some u" by auto
    define s1 where "s1 = update_assignments (a_id a')
              (\<lambda>r. r\<lparr>a_returned_at := Some now,
                      a_return_location_id := (if c = Cond_lost then None else or_null loc),
                      a_return_condition := Some c,
                      a_return_notes := or_null nts,
                      a_return_status := Returned,
                      a_return_approved_by := Some u,
                      a_return_approved_at := Some now2\<rparr>) s'"
    have "select_assignment (a_id a) s2 = select_assignment (a_id a) s1"
      using assms(6,8) True u
      by (auto simp: ReturnDialog_handleReturn_def Let_def s1_def split: if_splits)
    then show ?thesis using row id' by (simp add: s1_def select_assignment_update)
  qed
  with r row tl show ?thesis by simp
qed

theorem rejectReturn_clears_return_fields_witness:
  "select_assignment (a_id demo_pending) demo_db_pending = Some demo_pending \<and>
   a_return_status demo_pending = Pending_return \<and>
   rejectReturn demo_pending no_faults demo_db_pending =
     (Completed, demo_db_pending\<lparr>tool_assignments := [demo_active\<lparr>a_return_condition := None\<rparr>]\<rparr>) \<and>
   map (\<lambda>row. (a_return_condition row, a_return_notes row, a_return_location_id row))
     (tool_assignments
        (snd (ReturnDialog_handleReturn (demo_active\<lparr>a_return_condition := None\<rparr>) False
                Cond_maintenance ''l4'' ''blade is dull'' (Some ''u1'') ''2026-03-05T08:00:00.000Z''
                    ''2026-03-05T08:00:00.001Z''
                no_faults
                (demo_db_pending\<lparr>tool_assignments := [demo_active\<lparr>a_return_condition := None\<rparr>]\<rparr>)))) =
     [(Some Cond_maintenance, Some ''blade is dull'', Some ''l4'')]"
proof -
  have sel: "select_assignment (a_id demo_pending) demo_db_pending = Some demo_pending"
    by (simp add: op_defs demo_defs)
  have st: "a_return_status demo_pending = Pending_return"
    by (simp add: demo_defs)
  have nf: "\<not> assignmentError no_faults"
    by (simp add: no_faults_def)
  have rej: "rejectReturn demo_pending no_faults demo_db_pending =
     (Completed, demo_db_pending\<lparr>tool_assignments := [demo_active\<lparr>a_return_condition := None\<rparr>]\<rparr>)"
    by (simp add: op_defs demo_defs)
  have row: "demo_active\<lparr>a_return_condition := None\<rparr> =
     demo_pending\<lparr>a_return_status := Active, a_return_requested_at := None,
                  a_return_location_id := None, a_return_condition := None,
                  a_return_notes := None\<rparr>"
    by (simp add: demo_defs)
  have adm: "False \<longrightarrow> Some ''u1'' \<noteq> None"
    by simp
  have req: "ReturnDialog_handleReturn (demo_active\<lparr>a_return_condition := None\<rparr>) False
                Cond_maintenance ''l4'' ''blade is dull'' (Some ''u1'') ''2026-03-05T08:00:00.000Z''
                    ''2026-03-05T08:00:00.001Z''
                no_faults
                (demo_db_pending\<lparr>tool_assignments := [demo_active\<lparr>a_return_condition := None\<rparr>]\<rparr>) =
     (Completed,
      snd (ReturnDialog_handleReturn (demo_active\<lparr>a_return_condition := None\<rparr>) False
                Cond_maintenance ''l4'' ''blade is dull'' (Some ''u1'') ''2026-03-05T08:00:00.000Z''
                    ''2026-03-05T08:00:00.001Z''
                no_faults
                (demo_db_pending\<lparr>tool_assignments := [demo_active\<lparr>a_return_condition := None\<rparr>]\<rparr>)))"
    by (simp add: op_defs demo_defs)
  from rejectReturn_clears_return_fields[OF sel st nf rej row nf adm req] sel st rej
  show ?thesis
    by (simp add: op_defs demo_defs)
qed

section \<open>Returning a lost tool\<close>

text \<open>
  Claim C8. When the condition is \<open>lost\<close>, the return location stored on the assignment
  is null whatever location the dialog holds, on the administrator's path and on the path
  of the pending return; the call does not fail for it: it completes unless a write is
  rejected.
\<close>

theorem lost_return_location_is_null:
  assumes "select_assignment (a_id a) s = Some a"
    and "\<not> assignmentError flt" and "isAdmin \<longrightarrow> user \<noteq> None"
    and "ReturnDialog_handleReturn a isAdmin Cond_lost loc nts user now now2 flt s = (r, s')"
  shows "map_option a_return_location_id (select_assignment (a_id a) s') = Some None \<and>
         (\<not> toolError flt \<longrightarrow> r = Completed)"
proof (cases isAdmin)
  case False
  with assms(2,4) have "r = Completed" and "s' = update_assignments (a_id a)
              (\<lambda>r. r\<lparr>a_return_status := Pending_return,
                      a_return_requested_at := Some now,
                      a_return_location_id := None,
                      a_return_condition := Some Cond_lost,
                      a_return_notes := or_null nts\<rparr>) s"
    by (simp_all add: ReturnDialog_handleReturn_def)
  then show ?thesis using assms(1) by (simp add: select_assignment_update)
next
  case True
  with assms(3) obtain u where u: "user = Some u" by auto
  define s1 where "s1 = update_assignments (a_id a)
              (\<lambda>r. r\<lparr>a_returned_at := Some now,
                      a_return_location_id := None,
                      a_return_condition := Some Cond_lost,
                      a_return_notes := or_null nts,
                      a_return_status := Returned,
                      a_return_approved_by := Some u,
                      a_return_approved_at := Some now2\<rparr>) s"
  have "select_assignment (a_id a) s' = select_assignment (a_id a) s1"
    and "\<not> toolError flt \<longrightarrow> r = Completed"
    using assms(2,4) True u
    by (auto simp: ReturnDialog_handleReturn_def Let_def s1_def split: if_splits)
  then show ?thesis using assms(1) by (simp add: s1_def select_assignment_update)
qed

theorem lost_return_location_is_null_witness:
  "select_assignment (a_id demo_active) demo_db_active = Some demo_active \<and>
   fst (ReturnDialog_handleReturn demo_active False Cond_lost ''l3'' ''left on site'' (Some ''u1'')
          ''2026-03-02T08:00:00.000Z''
              ''2026-03-02T08:00:00.001Z'' no_faults demo_db_active) = Completed \<and>
   map a_return_location_id
     (tool_assignments
        (snd (ReturnDialog_handleReturn demo_active False Cond_lost ''l3'' ''left on site''
                (Some ''u1'') ''2026-03-02T08:00:00.000Z''
                    ''2026-03-02T08:00:00.001Z'' no_faults demo_db_active))) = [None] \<and>
   fst (ReturnDialog_handleReturn demo_active True Cond_lost ''l3'' ''left on site''
          (Some ''admin'') ''2026-03-02T08:00:00.000Z''
              ''2026-03-02T08:00:00.001Z'' no_faults demo_db_active) = Completed \<and>
   map a_return_location_id
     (tool_assignments
        (snd (ReturnDialog_handleReturn demo_active True Cond_lost ''l3'' ''left on site''
                (Some ''admin'') ''2026-03-02T08:00:00.000Z''
                    ''2026-03-02T08:00:00.001Z'' no_faults demo_db_active))) = [None]"
proof -
  have sel: "select_assignment (a_id demo_active) demo_db_active = Some demo_active"
    by (simp add: op_defs demo_defs)
  have nf: "\<not> assignmentError no_faults"
    by (simp add: no_faults_def)
  have user: "False \<longrightarrow> Some ''u1'' \<noteq> None" and admin: "True \<longrightarrow> Some ''admin'' \<noteq> None"
    by simp_all
  from lost_return_location_is_null[OF sel nf user surjective_pairing]
       lost_return_location_is_null[OF sel nf admin surjective_pairing] sel
  show ?thesis
    by (simp add: op_defs demo_defs)
qed

section \<open>The Dashboard's "return my tool"\<close>

text \<open>
  Claim C10. \<open>handleReturnTool\<close> changes the \<open>tools\<close> table only: when it completes,
  the tools with the given id have status \<open>available\<close> and no person, and every other
  column and row is as before; the assignments (so also \<open>returned_at\<close> and the return
  status of an open one), the event log and the requests are never touched. It completes
  when the prompt is confirmed and the write is accepted.
\<close>

theorem handleReturnTool_frame:
  assumes "handleReturnTool toolId confirmed flt s = (r, s')"
  shows "tool_assignments s' = tool_assignments s \<and>
         tool_event_log s' = tool_event_log s \<and>
         tool_requests s' = tool_requests s \<and>
         (r = Completed \<longrightarrow>
            tools s' = map (\<lambda>t. if t_id t = toolId
                                 then t\<lparr>t_status := Available, t_person_id := None\<rparr> else t)
                         (tools s)) \<and>
         (r \<noteq> Completed \<longrightarrow> tools s' = tools s) \<and>
         (confirmed \<and> \<not> toolError flt \<longrightarrow> r = Completed)"
  using assms by (auto simp: handleReturnTool_def update_tools_def split: if_splits)

theorem handleReturnTool_frame_witness:
  "handleReturnTool ''t1'' True no_faults demo_db_active =
     (Completed,
      demo_db_active\<lparr>tools := [demo_tool\<lparr>t_status := Available, t_person_id := None\<rparr>]\<rparr>) \<and>
   tool_assignments demo_db_active = [demo_active] \<and>
   a_returned_at demo_active = None \<and> a_return_status demo_active = Active \<and>
   tool_event_log demo_db_active = []"
proof -
  have run: "handleReturnTool ''t1'' True no_faults demo_db_active =
     (Completed,
      demo_db_active\<lparr>tools := [demo_tool\<lparr>t_status := Available, t_person_id := None\<rparr>]\<rparr>)"
    by (simp add: op_defs demo_defs)
  from handleReturnTool_frame[OF run] run show ?thesis
    by (simp add: demo_defs)
qed

section \<open>The usage percentage\<close>




end
